theory Spec2Isabelle
  imports Main
begin

unbundle bit_operations_syntax

section \<open>Go standard library functions the program calls\<close>

text \<open>
  Go strings are byte strings: a \<^typ>\<open>string\<close> is the list of the bytes, and
  \<open>byte c\<close> is the value of one byte.  A nil slice and an empty slice are both the
  empty list (the program only ever takes their length).  The functions of this section
  model the packages \<^verbatim>\<open>strings\<close>, \<^verbatim>\<open>strconv\<close>, \<^verbatim>\<open>net\<close> and
  \<^verbatim>\<open>net/netip\<close> of the Go standard library (Go 1.21 or later, which the program needs
  for the builtin \<^verbatim>\<open>min\<close>); they follow the library's control flow.
\<close>

definition byte :: "char \<Rightarrow> nat" where
  "byte c = of_char c"

subsection \<open>Package strings\<close>

text \<open>\<^verbatim>\<open>strings.Contains(s, substr)\<close>.\<close>

primrec strings_Contains :: "string \<Rightarrow> string \<Rightarrow> bool" where
  "strings_Contains [] sub = (sub = [])"
| "strings_Contains (c # cs) sub = (take (length sub) (c # cs) = sub \<or> strings_Contains cs sub)"

text \<open>
  The UTF-8 encodings of the runes for which \<^verbatim>\<open>unicode.IsSpace\<close> holds: tab, line feed,
  vertical tab, form feed, carriage return, space, U+0085, U+00A0, U+1680, U+2000 to U+200A,
  U+2028, U+2029, U+202F, U+205F and U+3000.
\<close>

definition space_runes :: "string list" where
  "space_runes =
    [[CHR 0x09], [CHR 0x0A], [CHR 0x0B], [CHR 0x0C], [CHR 0x0D], [CHR 0x20],
     [CHR 0xC2, CHR 0x85], [CHR 0xC2, CHR 0xA0], [CHR 0xE1, CHR 0x9A, CHR 0x80],
     [CHR 0xE2, CHR 0x80, CHR 0x80], [CHR 0xE2, CHR 0x80, CHR 0x81],
     [CHR 0xE2, CHR 0x80, CHR 0x82], [CHR 0xE2, CHR 0x80, CHR 0x83],
     [CHR 0xE2, CHR 0x80, CHR 0x84], [CHR 0xE2, CHR 0x80, CHR 0x85],
     [CHR 0xE2, CHR 0x80, CHR 0x86], [CHR 0xE2, CHR 0x80, CHR 0x87],
     [CHR 0xE2, CHR 0x80, CHR 0x88], [CHR 0xE2, CHR 0x80, CHR 0x89],
     [CHR 0xE2, CHR 0x80, CHR 0x8A], [CHR 0xE2, CHR 0x80, CHR 0xA8],
     [CHR 0xE2, CHR 0x80, CHR 0xA9], [CHR 0xE2, CHR 0x80, CHR 0xAF],
     [CHR 0xE2, CHR 0x81, CHR 0x9F], [CHR 0xE3, CHR 0x80, CHR 0x80]]"

text \<open>
  The length of the token of \<open>toks\<close> that \<open>s\<close> starts with, 0 when it starts with
  none.  With \<open>space_runes\<close> this is the width of a leading white-space rune: the first
  rune of \<open>s\<close> decodes to a space exactly when \<open>s\<close> starts with one of these encodings
  (an invalid or truncated sequence decodes to \<^verbatim>\<open>utf8.RuneError\<close>, which is no space).
\<close>

definition tok_len :: "string list \<Rightarrow> string \<Rightarrow> nat" where
  "tok_len toks s =
    (case filter (\<lambda>t. take (length t) s = t) toks of [] \<Rightarrow> 0 | t # _ \<Rightarrow> length t)"

function trim_left :: "string list \<Rightarrow> string \<Rightarrow> string" where
  "trim_left toks s =
    (if tok_len toks s = 0 \<or> s = [] then s else trim_left toks (drop (tok_len toks s) s))"
  by pat_completeness auto
termination
  by (relation "measure (\<lambda>(toks, s). length s)") auto

declare trim_left.simps [simp del]

text \<open>
  \<^verbatim>\<open>strings.TrimLeftFunc(s, unicode.IsSpace)\<close> and
  \<^verbatim>\<open>strings.TrimRightFunc(s, unicode.IsSpace)\<close>; the latter decodes the last rune, which is a
  space exactly when \<open>s\<close> ends with one of the encodings.
\<close>

definition TrimLeftSpace :: "string \<Rightarrow> string" where
  "TrimLeftSpace s = trim_left space_runes s"

definition TrimRightSpace :: "string \<Rightarrow> string" where
  "TrimRightSpace s = rev (trim_left (map rev space_runes) (rev s))"

text \<open>\<^verbatim>\<open>strings.TrimSpace(s)\<close>: all leading and trailing white space removed.\<close>

definition strings_TrimSpace :: "string \<Rightarrow> string" where
  "strings_TrimSpace s = TrimRightSpace (TrimLeftSpace s)"

text \<open>\<^verbatim>\<open>strings.Trim(s, cutset)\<close> for a cutset of one ASCII byte \<open>c\<close>.\<close>

definition strings_Trim :: "string \<Rightarrow> char \<Rightarrow> string" where
  "strings_Trim s c = dropWhile (\<lambda>x. x = c) (rev (dropWhile (\<lambda>x. x = c) (rev s)))"

text \<open>
  \<^verbatim>\<open>strings.ToLower(s)\<close> on the ASCII letters.  On other runes the library applies
  \<^verbatim>\<open>unicode.ToLower\<close>; the only runes outside ASCII that it maps into ASCII are U+0130
  (to i) and U+212A (to k), so whether the result is one of the words
  true, 1, yes, false, 0, no, the only use the program makes of it, is the same.
\<close>

definition strings_ToLower :: "string \<Rightarrow> string" where
  "strings_ToLower s =
    map (\<lambda>c. if 65 \<le> byte c \<and> byte c \<le> 90 then char_of (byte c + 32) else c) s"

subsection \<open>Package strconv\<close>

definition digit_val :: "char \<Rightarrow> nat option" where
  "digit_val c = (if 48 \<le> byte c \<and> byte c \<le> 57 then Some (byte c - 48) else None)"

function uitoa :: "nat \<Rightarrow> string" where
  "uitoa n = (if n < 10 then [char_of (48 + n)] else uitoa (n div 10) @ [char_of (48 + n mod 10)])"
  by pat_completeness auto
termination
  by (relation "measure (\<lambda>n. n)") auto

declare uitoa.simps [simp del]

text \<open>\<^verbatim>\<open>strconv.Itoa(i)\<close>, also the verb \<^verbatim>\<open>%d\<close> of package fmt.\<close>

definition Itoa :: "int \<Rightarrow> string" where
  "Itoa i = (if i < 0 then CHR ''-'' # uitoa (nat (- i)) else uitoa (nat i))"

text \<open>
  \<^verbatim>\<open>strconv.Atoi(s)\<close> on a platform with 64-bit \<^verbatim>\<open>int\<close>: an optional sign and
  at least one decimal digit, nothing else, and a value that fits \<^verbatim>\<open>int64\<close>.
\<close>

fun atoi_digits :: "string \<Rightarrow> int \<Rightarrow> int option" where
  "atoi_digits [] n = Some n"
| "atoi_digits (c # cs) n =
    (case digit_val c of None \<Rightarrow> None | Some d \<Rightarrow> atoi_digits cs (n * 10 + int d))"

definition Atoi :: "string \<Rightarrow> int option" where
  "Atoi s =
    (let neg = (s \<noteq> [] \<and> hd s = CHR ''-'');
         ds = (if s \<noteq> [] \<and> (hd s = CHR ''-'' \<or> hd s = CHR ''+'') then tl s else s)
     in if ds = [] then None
        else case atoi_digits ds 0 of
          None \<Rightarrow> None
        | Some n \<Rightarrow>
            if neg then (if n \<le> 9223372036854775808 then Some (- n) else None)
            else (if n \<le> 9223372036854775807 then Some n else None))"

subsection \<open>Packages net and net/netip\<close>

text \<open>
  \<^verbatim>\<open>netip.parseIPv4\<close>: the loop over the bytes of \<open>s\<close>, with the previous byte
  (\<open>None\<close> at index 0), the value and the number of digits of the current field, and the
  fields read so far.
\<close>

fun parseIPv4_loop :: "string \<Rightarrow> char option \<Rightarrow> nat \<Rightarrow> nat \<Rightarrow> nat list \<Rightarrow> nat list option" where
  "parseIPv4_loop [] prev val digLen fields =
    (if length fields < 3 then None else Some (fields @ [val]))"
| "parseIPv4_loop (c # cs) prev val digLen fields =
    (case digit_val c of
      Some d \<Rightarrow>
        if digLen = 1 \<and> val = 0 then None
        else if val * 10 + d > 255 then None
        else parseIPv4_loop cs (Some c) (val * 10 + d) (Suc digLen) fields
    | None \<Rightarrow>
        if c = CHR ''.'' then
          (if prev = None \<or> cs = [] \<or> prev = Some (CHR ''.'') then None
           else if length fields = 3 then None
           else parseIPv4_loop cs (Some c) 0 0 (fields @ [val]))
        else None)"

definition parseIPv4 :: "string \<Rightarrow> nat list option" where
  "parseIPv4 s = parseIPv4_loop s None 0 0 []"

definition hex_val :: "char \<Rightarrow> nat option" where
  "hex_val c =
    (if 48 \<le> byte c \<and> byte c \<le> 57 then Some (byte c - 48)
     else if 97 \<le> byte c \<and> byte c \<le> 102 then Some (byte c - 97 + 10)
     else if 65 \<le> byte c \<and> byte c \<le> 70 then Some (byte c - 65 + 10)
     else None)"

text \<open>
  The inner loop of \<^verbatim>\<open>netip.parseIPv6\<close> that reads one group of hexadecimal digits: the
  value and the number of digits read, or an error after a fifth digit.
\<close>

fun hex_group :: "string \<Rightarrow> nat \<Rightarrow> nat \<Rightarrow> (nat \<times> nat) option" where
  "hex_group [] off acc = Some (acc, off)"
| "hex_group (c # cs) off acc =
    (case hex_val c of
      None \<Rightarrow> Some (acc, off)
    | Some d \<Rightarrow>
        if off > 3 then None
        else if acc * 16 + d > 65535 then None
        else hex_group cs (Suc off) (acc * 16 + d))"

text \<open>
  The outer loop of \<^verbatim>\<open>netip.parseIPv6\<close>: \<open>s\<close> is the text still to read, \<open>ip\<close> the
  bytes stored so far (the index \<open>i\<close> of the library is their number) and \<open>ell\<close> the
  position of the ellipsis.  It returns what is left of the text, the bytes and the ellipsis.
\<close>

function parseIPv6_loop ::
  "string \<Rightarrow> nat list \<Rightarrow> nat option \<Rightarrow> (string \<times> nat list \<times> nat option) option" where
  "parseIPv6_loop s ip ell =
    (if length ip \<ge> 16 then Some (s, ip, ell)
     else case hex_group s 0 0 of
       None \<Rightarrow> None
     | Some (acc, off) \<Rightarrow>
         if off = 0 then None
         else if off < length s \<and> s ! off = CHR ''.'' then
           (if ell = None \<and> length ip \<noteq> 12 then None
            else if length ip + 4 > 16 then None
            else case parseIPv4 s of
              None \<Rightarrow> None
            | Some b4 \<Rightarrow> Some ([], ip @ b4, ell))
         else if drop off s = [] then Some ([], ip @ [acc div 256, acc mod 256], ell)
         else if hd (drop off s) \<noteq> CHR '':'' then None
         else if length (drop off s) = 1 then None
         else if hd (drop (Suc off) s) = CHR '':'' then
           (if ell \<noteq> None then None
            else if drop (Suc (Suc off)) s = [] then
              Some ([], ip @ [acc div 256, acc mod 256], Some (length ip + 2))
            else parseIPv6_loop (drop (Suc (Suc off)) s) (ip @ [acc div 256, acc mod 256])
                   (Some (length ip + 2)))
         else parseIPv6_loop (drop (Suc off) s) (ip @ [acc div 256, acc mod 256]) ell)"
  by pat_completeness auto
termination
  by (relation "measure (\<lambda>(s, ip, ell). 16 - length ip)") auto

declare parseIPv6_loop.simps [simp del]

text \<open>\<^verbatim>\<open>netip.parseIPv6\<close>: the sixteen bytes and the zone.\<close>

definition parseIPv6 :: "string \<Rightarrow> (nat list \<times> string) option" where
  "parseIPv6 inp =
    (let s = takeWhile (\<lambda>c. c \<noteq> CHR ''%'') inp;
         rest = dropWhile (\<lambda>c. c \<noteq> CHR ''%'') inp;
         zone = (if rest = [] then [] else tl rest);
         lead = (length s \<ge> 2 \<and> s ! 0 = CHR '':'' \<and> s ! 1 = CHR '':'')
     in if rest \<noteq> [] \<and> zone = [] then None
        else if lead \<and> drop 2 s = [] then Some ([0, 0, 0, 0, 0, 0, 0, 0, 0, 0, 0, 0, 0, 0, 0, 0], zone)
        else case parseIPv6_loop (if lead then drop 2 s else s) []
                    (if lead then Some 0 else None) of
          None \<Rightarrow> None
        | Some (s', ip, ell) \<Rightarrow>
            if s' \<noteq> [] then None
            else if length ip < 16 then
              (case ell of
                None \<Rightarrow> None
              | Some e \<Rightarrow> Some (take e ip @ replicate (16 - length ip) 0 @ drop e ip, zone))
            else if ell \<noteq> None then None
            else Some (ip, zone))"

text \<open>
  \<^verbatim>\<open>netip.ParseAddr\<close>: the first of the bytes \<^verbatim>\<open>.\<close>, \<^verbatim>\<open>:\<close> and \<^verbatim>\<open>%\<close> in \<open>s\<close>
  decides how all of \<open>s\<close> is parsed.
\<close>

datatype Addr = Addr4 "nat list" | Addr6 "nat list" string

fun ParseAddr_scan :: "string \<Rightarrow> string \<Rightarrow> Addr option" where
  "ParseAddr_scan [] s = None"
| "ParseAddr_scan (c # cs) s =
    (if c = CHR ''.'' then map_option Addr4 (parseIPv4 s)
     else if c = CHR '':'' then map_option (\<lambda>(b, z). Addr6 b z) (parseIPv6 s)
     else if c = CHR ''%'' then None
     else ParseAddr_scan cs s)"

definition ParseAddr :: "string \<Rightarrow> Addr option" where
  "ParseAddr s = ParseAddr_scan s s"

definition v4InV6Prefix :: "nat list" where
  "v4InV6Prefix = [0, 0, 0, 0, 0, 0, 0, 0, 0, 0, 255, 255]"

text \<open>\<^verbatim>\<open>Addr.As16\<close>, \<^verbatim>\<open>Addr.Zone\<close> and \<^verbatim>\<open>Addr.BitLen\<close>.\<close>

fun As16 :: "Addr \<Rightarrow> nat list" where
  "As16 (Addr4 b) = v4InV6Prefix @ b"
| "As16 (Addr6 b z) = b"

fun Zone :: "Addr \<Rightarrow> string" where
  "Zone (Addr4 b) = []"
| "Zone (Addr6 b z) = z"

fun BitLen :: "Addr \<Rightarrow> nat" where
  "BitLen (Addr4 b) = 32"
| "BitLen (Addr6 b z) = 128"

text \<open>\<^verbatim>\<open>net.ParseIP\<close>: the 16-byte form of the address, or \<open>None\<close> for nil.\<close>

definition ParseIP :: "string \<Rightarrow> nat list option" where
  "ParseIP s =
    (case ParseAddr s of
      None \<Rightarrow> None
    | Some a \<Rightarrow> if Zone a \<noteq> [] then None else Some (As16 a))"

text \<open>\<^verbatim>\<open>IP.To4\<close>: the 4-byte form, or \<open>None\<close> for nil.\<close>

definition To4 :: "nat list \<Rightarrow> nat list option" where
  "To4 ip =
    (if length ip = 4 then Some ip
     else if length ip = 16 \<and> take 10 ip = [0, 0, 0, 0, 0, 0, 0, 0, 0, 0] \<and> ip ! 10 = 255 \<and> ip ! 11 = 255
       then Some (drop 12 ip)
     else None)"

text \<open>\<^verbatim>\<open>net.CIDRMask(ones, bits)\<close> for \<open>bits\<close> 32 or 128 and \<open>ones \<le> bits\<close>.\<close>

fun CIDRMask_loop :: "nat \<Rightarrow> nat \<Rightarrow> nat list" where
  "CIDRMask_loop 0 n = []"
| "CIDRMask_loop (Suc l) n =
    (if n \<ge> 8 then 255 # CIDRMask_loop l (n - 8)
     else (255 - 255 div 2 ^ n) # CIDRMask_loop l 0)"

definition CIDRMask :: "nat \<Rightarrow> nat \<Rightarrow> nat list" where
  "CIDRMask ones bits = CIDRMask_loop (bits div 8) ones"

definition allFF12 :: "nat list" where
  "allFF12 = [255, 255, 255, 255, 255, 255, 255, 255, 255, 255, 255, 255]"

text \<open>\<^verbatim>\<open>IP.Mask(mask)\<close>; the empty list is nil.\<close>

definition IP_Mask :: "nat list \<Rightarrow> nat list \<Rightarrow> nat list" where
  "IP_Mask ip msk =
    (let mask1 = (if length msk = 16 \<and> length ip = 4 \<and> take 12 msk = allFF12
                  then drop 12 msk else msk);
         ip1 = (if length mask1 = 4 \<and> length ip = 16 \<and> take 12 ip = v4InV6Prefix
                then drop 12 ip else ip)
     in if length ip1 \<noteq> length mask1 then [] else map (\<lambda>(a, b). a AND b) (zip ip1 mask1))"

text \<open>\<^verbatim>\<open>net.dtoi\<close>: the decimal number at the start of \<open>s\<close>, the number of bytes read and a success flag.\<close>

fun dtoi_loop :: "string \<Rightarrow> nat \<Rightarrow> nat \<Rightarrow> nat \<times> nat \<times> bool" where
  "dtoi_loop [] n i = (n, i, True)"
| "dtoi_loop (c # cs) n i =
    (case digit_val c of
      None \<Rightarrow> (n, i, True)
    | Some d \<Rightarrow> if n * 10 + d \<ge> 0xFFFFFF then (0xFFFFFF, i, False) else dtoi_loop cs (n * 10 + d) (Suc i))"

definition dtoi :: "string \<Rightarrow> nat \<times> nat \<times> bool" where
  "dtoi s = (case dtoi_loop s 0 0 of (n, i, ok) \<Rightarrow> if ok \<and> i = 0 then (0, 0, False) else (n, i, ok))"

record IPNet =
  IP :: "nat list"
  Mask :: "nat list"

text \<open>\<^verbatim>\<open>net.ParseCIDR\<close>: the address in 16-byte form and the network, or \<open>None\<close> for the error.\<close>

definition ParseCIDR :: "string \<Rightarrow> (nat list \<times> IPNet) option" where
  "ParseCIDR s =
    (if CHR ''/'' \<notin> set s then None
     else case ParseAddr (takeWhile (\<lambda>c. c \<noteq> CHR ''/'') s) of
       None \<Rightarrow> None
     | Some a \<Rightarrow>
         if Zone a \<noteq> [] then None
         else case dtoi (tl (dropWhile (\<lambda>c. c \<noteq> CHR ''/'') s)) of
           (n, i, ok) \<Rightarrow>
             if \<not> ok \<or> i \<noteq> length (tl (dropWhile (\<lambda>c. c \<noteq> CHR ''/'') s)) \<or> n > BitLen a then None
             else Some (As16 a,
                    \<lparr>IP = IP_Mask (As16 a) (CIDRMask n (BitLen a)), Mask = CIDRMask n (BitLen a)\<rparr>))"

text \<open>\<^verbatim>\<open>net.simpleMaskLength\<close>: the number of leading ones, or \<open>None\<close> (the library's -1)
  when the mask is not ones followed by zeros.\<close>

fun leading_ones :: "nat \<Rightarrow> nat \<Rightarrow> nat \<times> nat" where
  "leading_ones 0 v = (0, v)"
| "leading_ones (Suc k) v =
    (if v AND 128 \<noteq> 0 then (case leading_ones k ((v * 2) mod 256) of (n, v') \<Rightarrow> (Suc n, v'))
     else (0, v))"

fun simpleMaskLength :: "nat list \<Rightarrow> nat option" where
  "simpleMaskLength [] = Some 0"
| "simpleMaskLength (v # vs) =
    (if v = 255 then map_option (\<lambda>n. n + 8) (simpleMaskLength vs)
     else case leading_ones 8 v of
       (n, v') \<Rightarrow> if v' \<noteq> 0 then None else if filter (\<lambda>b. b \<noteq> 0) vs \<noteq> [] then None else Some n)"

text \<open>\<^verbatim>\<open>IPMask.Size\<close>: the number of ones and of bits, both 0 for a mask that is not canonical.\<close>

definition IPMask_Size :: "nat list \<Rightarrow> nat \<times> nat" where
  "IPMask_Size m = (case simpleMaskLength m of None \<Rightarrow> (0, 0) | Some n \<Rightarrow> (n, length m * 8))"

text \<open>\<^verbatim>\<open>net.IPv4Mask(a, b, c, d)\<close>.\<close>

definition IPv4Mask :: "nat \<Rightarrow> nat \<Rightarrow> nat \<Rightarrow> nat \<Rightarrow> nat list" where
  "IPv4Mask a b c d = [a, b, c, d]"

text \<open>The dotted form of four bytes (\<^verbatim>\<open>Addr.string4\<close>).\<close>

definition string4 :: "nat list \<Rightarrow> string" where
  "string4 b = uitoa (b ! 0) @ ''.'' @ uitoa (b ! 1) @ ''.'' @ uitoa (b ! 2) @ ''.'' @ uitoa (b ! 3)"

text \<open>The digit tables of the library (\<^verbatim>\<open>hextable\<close>, \<^verbatim>\<open>digits\<close>), read at an index below 16.\<close>

definition hexdigit :: "nat \<Rightarrow> char" where
  "hexdigit d = ''0123456789abcdef'' ! d"

text \<open>\<^verbatim>\<open>netip.appendHex\<close>: lower-case hexadecimal without leading zeros.\<close>

definition appendHex :: "nat \<Rightarrow> string" where
  "appendHex x =
    (if x \<ge> 0x1000 then [hexdigit (x div 0x1000)] else []) @
    (if x \<ge> 0x100 then [hexdigit (x div 0x100 mod 16)] else []) @
    (if x \<ge> 0x10 then [hexdigit (x div 0x10 mod 16)] else []) @
    [hexdigit (x mod 16)]"

text \<open>The eight 16-bit groups of a 16-byte address.\<close>

definition v6u16 :: "nat list \<Rightarrow> nat \<Rightarrow> nat" where
  "v6u16 ip i = ip ! (2 * i) * 256 + ip ! (2 * i + 1)"

text \<open>
  \<^verbatim>\<open>Addr.string6\<close> without a zone.  First the longest run of at least two zero groups,
  the first one among equals (start and end 255 when there is none), then the groups with
  that run written as \<^verbatim>\<open>::\<close>.
\<close>

definition zero_run_end :: "nat list \<Rightarrow> nat \<Rightarrow> nat" where
  "zero_run_end ip i = i + length (takeWhile (\<lambda>j. v6u16 ip j = 0) [i..<8])"

definition zero_run :: "nat list \<Rightarrow> nat \<times> nat" where
  "zero_run ip =
    fold (\<lambda>i (zs, ze). if zero_run_end ip i - i \<ge> 2 \<and> zero_run_end ip i - i > ze - zs
                        then (i, zero_run_end ip i) else (zs, ze))
      [0..<8] (255, 255)"

function string6_loop :: "nat list \<Rightarrow> nat \<times> nat \<Rightarrow> nat \<Rightarrow> string" where
  "string6_loop ip z i =
    (if i \<ge> 8 then []
     else if i = fst z then
       (if snd z \<ge> 8 then ''::''
        else ''::'' @ appendHex (v6u16 ip (snd z)) @ string6_loop ip z (Suc (max i (snd z))))
     else (if i > 0 then '':'' else []) @ appendHex (v6u16 ip i) @ string6_loop ip z (Suc i))"
  by pat_completeness auto
termination
  by (relation "measure (\<lambda>(ip, z, i). 8 - i)") auto

declare string6_loop.simps [simp del]

definition string6 :: "nat list \<Rightarrow> string" where
  "string6 ip = string6_loop ip (zero_run ip) 0"

text \<open>\<^verbatim>\<open>IP.String\<close> for a slice of 0, 4 or 16 bytes (the program makes no other).\<close>

definition IP_String :: "nat list \<Rightarrow> string" where
  "IP_String ip =
    (if ip = [] then ''<nil>''
     else case To4 ip of Some p4 \<Rightarrow> string4 p4 | None \<Rightarrow> string6 ip)"

text \<open>\<^verbatim>\<open>net.networkNumberAndMask\<close> and \<^verbatim>\<open>IPNet.String\<close>.\<close>

definition networkNumberAndMask :: "IPNet \<Rightarrow> (nat list \<times> nat list) option" where
  "networkNumberAndMask n =
    (let ip = (case To4 (IP n) of Some p4 \<Rightarrow> p4 | None \<Rightarrow> IP n)
     in if To4 (IP n) = None \<and> length ip \<noteq> 16 then None
        else if length (Mask n) = length ip then Some (ip, Mask n)
        else if length (Mask n) = 16 then
          (if length ip \<noteq> 4 then None
           else if take 12 (Mask n) \<noteq> allFF12 then None
           else Some (ip, drop 12 (Mask n)))
        else None)"

definition IPNet_String :: "IPNet \<Rightarrow> string" where
  "IPNet_String n =
    (case networkNumberAndMask n of
      None \<Rightarrow> ''<nil>''
    | Some (nn, m) \<Rightarrow>
        (case simpleMaskLength m of
          None \<Rightarrow> IP_String nn @ ''/'' @ concat (map (\<lambda>b. [hexdigit (b div 16), hexdigit (b mod 16)]) m)
        | Some l \<Rightarrow> IP_String nn @ ''/'' @ uitoa l))"

text \<open>\<^verbatim>\<open>IP.To4\<close> on the result of \<^verbatim>\<open>net.ParseIP\<close>, which may be nil.\<close>

definition ParseIP_To4 :: "string \<Rightarrow> nat list option" where
  "ParseIP_To4 s = (case ParseIP s of None \<Rightarrow> None | Some ip \<Rightarrow> To4 ip)"

section \<open>Package routes\<close>

subsection \<open>The data model\<close>

text \<open>The struct \<^verbatim>\<open>Route\<close>: a full route, host plus all parameters.\<close>

record Route =
  Host :: string
  Comment :: string
  Gateway :: string
  Interface :: string
  Auto :: bool
  Reject :: bool

text \<open>
  The struct \<^verbatim>\<open>RouteGroup\<close>: a YAML group.  The field \<^verbatim>\<open>Domains\<close> is read by
  \<^verbatim>\<open>ResolveDomainsWithResolver\<close>; the fields carry the prefix \<open>g_\<close> to keep them
  apart from those of \<open>Route\<close>.
\<close>

record RouteGroup =
  g_Comment :: string
  g_Gateway :: string
  g_Interface :: string
  g_Auto :: bool
  g_Reject :: bool
  g_Hosts :: "string list"
  g_Domains :: "string list"

record RoutesFile =
  Routes :: "RouteGroup list"

text \<open>The interface \<^verbatim>\<open>RouteView\<close>: the values its methods return.\<close>

record RouteView =
  HostValue :: string
  NetworkValue :: string
  IPValue :: string
  MaskValue :: string
  PrefixValue :: int
  PrefixLenValue :: int
  CommentValue :: string
  GatewayValue :: string
  InterfaceValue :: string
  AutoValue :: bool
  RejectValue :: bool

subsection \<open>Destination of a route\<close>

definition isIPv4OrCIDR :: "string \<Rightarrow> bool" where
  "isIPv4OrCIDR s =
    (if strings_Contains s ''/'' then
       (case ParseCIDR s of None \<Rightarrow> False | Some (ip, n) \<Rightarrow> To4 ip \<noteq> None)
     else case ParseIP s of None \<Rightarrow> False | Some ip \<Rightarrow> To4 ip \<noteq> None)"

text \<open>The network address \<^verbatim>\<open>RouteDest\<close> reads when the host is empty: \<^verbatim>\<open>network\<close>, or
  \<^verbatim>\<open>ip\<close> when that is empty.\<close>

definition dest_network :: "RouteView \<Rightarrow> string" where
  "dest_network r = (if NetworkValue r = [] then IPValue r else NetworkValue r)"

definition RouteDest :: "RouteView \<Rightarrow> string" where
  "RouteDest r =
    (if HostValue r \<noteq> [] then (if \<not> isIPv4OrCIDR (HostValue r) then [] else HostValue r)
     else if dest_network r = [] then []
     else if ParseIP_To4 (dest_network r) = None then []
     else if PrefixValue r > 0 \<and> PrefixValue r \<le> 32
       then dest_network r @ ''/'' @ Itoa (PrefixValue r)
     else if PrefixLenValue r > 0 \<and> PrefixLenValue r \<le> 32
       then dest_network r @ ''/'' @ Itoa (PrefixLenValue r)
     else if MaskValue r = [] then dest_network r
     else case ParseIP (MaskValue r) of
       None \<Rightarrow> dest_network r
     | Some maskIP \<Rightarrow>
         (case To4 maskIP of
           None \<Rightarrow> dest_network r
         | Some m \<Rightarrow>
             dest_network r @ ''/'' @
               Itoa (int (fst (IPMask_Size (IPv4Mask (m ! 0) (m ! 1) (m ! 2) (m ! 3)))))))"

subsection \<open>Grouping routes for the YAML file\<close>

text \<open>The struct \<^verbatim>\<open>routeGroupKey\<close>.\<close>

record routeGroupKey =
  key_comment :: string
  key_gateway :: string
  key_iface :: string
  key_auto :: bool
  key_reject :: bool

definition route_key :: "Route \<Rightarrow> routeGroupKey" where
  "route_key r =
    \<lparr>key_comment = Comment r, key_gateway = Gateway r, key_iface = Interface r,
     key_auto = Auto r, key_reject = Reject r\<rparr>"

text \<open>The first loop of \<^verbatim>\<open>ToYAML\<close>, with the map \<^verbatim>\<open>grouped\<close> and the slice
  \<^verbatim>\<open>order\<close> as its state.\<close>

fun ToYAML_collect ::
  "Route list \<Rightarrow> (routeGroupKey \<rightharpoonup> string list) \<times> routeGroupKey list \<Rightarrow>
   (routeGroupKey \<rightharpoonup> string list) \<times> routeGroupKey list" where
  "ToYAML_collect [] st = st"
| "ToYAML_collect (r # rs) (grouped, order) =
    (if Host r = [] \<or> \<not> isIPv4OrCIDR (Host r) then ToYAML_collect rs (grouped, order)
     else ToYAML_collect rs
       (grouped(route_key r \<mapsto> (case grouped (route_key r) of None \<Rightarrow> [] | Some hs \<Rightarrow> hs) @ [Host r]),
        if grouped (route_key r) = None then order @ [route_key r] else order))"

definition ToYAML :: "Route list \<Rightarrow> RoutesFile" where
  "ToYAML routesList =
    (case ToYAML_collect routesList (Map.empty, []) of
      (grouped, order) \<Rightarrow>
        \<lparr>Routes = map (\<lambda>k.
            \<lparr>g_Comment = key_comment k, g_Gateway = key_gateway k, g_Interface = key_iface k,
             g_Auto = key_auto k, g_Reject = key_reject k,
             g_Hosts = (case grouped k of None \<Rightarrow> [] | Some hs \<Rightarrow> hs), g_Domains = []\<rparr>) order\<rparr>)"

subsection \<open>Flattening the YAML file\<close>

text \<open>The errors of \<^verbatim>\<open>normalizeHost\<close>: \<^verbatim>\<open>empty host\<close>, the error of
  \<^verbatim>\<open>net.ParseCIDR\<close>, \<^verbatim>\<open>invalid IPv4 CIDR\<close>, \<^verbatim>\<open>invalid IP\<close> and \<^verbatim>\<open>invalid IPv4\<close>.\<close>

datatype host_error = EmptyHost | CIDRParseError | InvalidIPv4CIDR | InvalidIP | InvalidIPv4

definition normalizeHost :: "string \<Rightarrow> host_error + string" where
  "normalizeHost s =
    (if strings_TrimSpace s = [] then Inl EmptyHost
     else if strings_Contains (strings_TrimSpace s) ''/'' then
       (case ParseCIDR (strings_TrimSpace s) of
         None \<Rightarrow> Inl CIDRParseError
       | Some (ip, n) \<Rightarrow> if To4 ip = None then Inl InvalidIPv4CIDR else Inr (IPNet_String n))
     else case ParseIP (strings_TrimSpace s) of
       None \<Rightarrow> Inl InvalidIP
     | Some ip \<Rightarrow> if To4 ip = None then Inl InvalidIPv4 else Inr (IP_String ip))"

text \<open>
  The errors of \<^verbatim>\<open>FlattenToEntries\<close>, one constructor for each \<^verbatim>\<open>fmt.Errorf\<close>:
  \<open>ExactlyOne c\<close> is \<^verbatim>\<open>group %q: set exactly one of gateway or interface\<close> with the
  group's comment \<open>c\<close> for \<^verbatim>\<open>%q\<close> (the comment between double quotes), and
  \<open>BadHost c h e\<close> is \<^verbatim>\<open>group %q host %q: %w\<close> with the comment, the host and the error
  of \<^verbatim>\<open>normalizeHost\<close>.
\<close>

datatype flatten_error = ExactlyOne string | BadHost string string host_error

text \<open>The loop over the hosts of one group; \<open>out\<close> is the slice built so far.\<close>

fun flatten_hosts :: "RouteGroup \<Rightarrow> string list \<Rightarrow> Route list \<Rightarrow> flatten_error + Route list" where
  "flatten_hosts g [] out = Inr out"
| "flatten_hosts g (h # hs) out =
    (case normalizeHost h of
      Inl err \<Rightarrow> Inl (BadHost (g_Comment g) h err)
    | Inr norm \<Rightarrow>
        flatten_hosts g hs
          (out @ [\<lparr>Host = norm, Comment = g_Comment g, Gateway = g_Gateway g,
                   Interface = g_Interface g, Auto = g_Auto g, Reject = g_Reject g\<rparr>]))"

text \<open>The loop over the groups.\<close>

fun flatten_groups :: "RouteGroup list \<Rightarrow> Route list \<Rightarrow> flatten_error + Route list" where
  "flatten_groups [] out = Inr out"
| "flatten_groups (g # gs) out =
    (if length (g_Hosts g) = 0 then flatten_groups gs out
     else if (g_Gateway g \<noteq> []) = (g_Interface g \<noteq> []) then Inl (ExactlyOne (g_Comment g))
     else case flatten_hosts g (g_Hosts g) out of
       Inl err \<Rightarrow> Inl err
     | Inr out' \<Rightarrow> flatten_groups gs out')"

text \<open>\<^verbatim>\<open>FlattenToEntries\<close>; the argument \<open>None\<close> is the nil pointer.\<close>

definition FlattenToEntries :: "RoutesFile option \<Rightarrow> flatten_error + Route list" where
  "FlattenToEntries rf =
    (case rf of
      None \<Rightarrow> Inr []
    | Some f \<Rightarrow> if length (Routes f) = 0 then Inr [] else flatten_groups (Routes f) [])"

subsection \<open>Resolving the domains of the groups\<close>

text \<open>The struct \<^verbatim>\<open>ResolveSummary\<close>; its field \<^verbatim>\<open>Domains\<close> is \<open>DomainsCount\<close> here.\<close>

record ResolveSummary =
  Groups :: int
  DomainsCount :: int
  IPsAdded :: int

text \<open>
  The text \<^verbatim>\<open>groupLabel\<close> returns: \<open>Quoted c\<close> is \<^verbatim>\<open>fmt.Sprintf("%q", c)\<close>, the
  comment between double quotes, and \<open>Numbered n\<close> is \<^verbatim>\<open>fmt.Sprintf("#%d", n)\<close>.
\<close>

datatype group_label = Quoted string | Numbered int

definition groupLabel :: "RouteGroup \<Rightarrow> int \<Rightarrow> group_label" where
  "groupLabel g idx = (if g_Comment g \<noteq> [] then Quoted (g_Comment g) else Numbered (idx + 1))"

text \<open>
  The errors of \<^verbatim>\<open>lookupIPv4\<close> (\<^verbatim>\<open>IPv6 is not supported\<close>, or the resolver's error)
  and of \<^verbatim>\<open>ResolveDomainsWithResolver\<close>, one constructor for each \<^verbatim>\<open>fmt.Errorf\<close>:
  \<^verbatim>\<open>group %s: set exactly one of gateway or interface\<close>,
  \<^verbatim>\<open>group %s: empty domain entry\<close>, \<^verbatim>\<open>group %s domain %q: %w\<close> and
  \<^verbatim>\<open>group %s domain %q: no IPv4 records found\<close>, with the label of the group for
  \<^verbatim>\<open>%s\<close>.
\<close>

datatype lookup_error = IPv6NotSupported | ResolverError string

datatype resolve_error =
    ResolveExactlyOne group_label
  | EmptyDomainEntry group_label
  | DomainLookupFailed group_label string lookup_error
  | NoIPv4Records group_label string

text \<open>
  The interface \<^verbatim>\<open>IPResolver\<close>: \<^verbatim>\<open>LookupIPAddr\<close> gives for a host an error or the
  addresses (each the bytes of its \<^verbatim>\<open>IP\<close>).  The five-second timeout of the lookup is
  one of the errors.
\<close>

type_synonym IPResolver = "string \<Rightarrow> string + nat list list"

text \<open>The loop of \<^verbatim>\<open>lookupIPv4\<close> over the addresses, with the map \<^verbatim>\<open>seen\<close> (a set) and
  the slice \<^verbatim>\<open>ips\<close>.\<close>

fun collect_ipv4 :: "nat list list \<Rightarrow> string set \<times> string list \<Rightarrow> string set \<times> string list" where
  "collect_ipv4 [] st = st"
| "collect_ipv4 (a # as) (seen, ips) =
    (case To4 a of
      None \<Rightarrow> collect_ipv4 as (seen, ips)
    | Some ip4 \<Rightarrow>
        if IP_String ip4 \<in> seen then collect_ipv4 as (seen, ips)
        else collect_ipv4 as (insert (IP_String ip4) seen, ips @ [IP_String ip4]))"

definition lookupIPv4 :: "IPResolver \<Rightarrow> string \<Rightarrow> lookup_error + string list" where
  "lookupIPv4 resolver domain =
    (case ParseIP domain of
      Some ip \<Rightarrow> (case To4 ip of Some ip4 \<Rightarrow> Inr [IP_String ip4] | None \<Rightarrow> Inl IPv6NotSupported)
    | None \<Rightarrow>
        (case resolver domain of
          Inl err \<Rightarrow> Inl (ResolverError err)
        | Inr addrs \<Rightarrow> Inr (snd (collect_ipv4 addrs ({}, [])))))"

text \<open>The loop over the hosts of a group, with the map \<^verbatim>\<open>seenHosts\<close> and the slice
  \<^verbatim>\<open>mergedHosts\<close>.\<close>

fun merge_hosts :: "string list \<Rightarrow> string set \<times> string list \<Rightarrow> string set \<times> string list" where
  "merge_hosts [] st = st"
| "merge_hosts (h # hs) (seenHosts, mergedHosts) =
    (if strings_TrimSpace h = [] then merge_hosts hs (seenHosts, mergedHosts)
     else if strings_TrimSpace h \<in> seenHosts then merge_hosts hs (seenHosts, mergedHosts)
     else merge_hosts hs (insert (strings_TrimSpace h) seenHosts, mergedHosts @ [strings_TrimSpace h]))"

text \<open>The loop over the addresses of one domain.\<close>

fun merge_ips ::
  "string list \<Rightarrow> string set \<times> string list \<times> ResolveSummary \<Rightarrow>
   string set \<times> string list \<times> ResolveSummary" where
  "merge_ips [] st = st"
| "merge_ips (ip # ips) (seenHosts, mergedHosts, summary) =
    (if ip \<in> seenHosts then merge_ips ips (seenHosts, mergedHosts, summary)
     else merge_ips ips
       (insert ip seenHosts, mergedHosts @ [ip], summary\<lparr>IPsAdded := IPsAdded summary + 1\<rparr>))"

text \<open>The loop over the domains of one group; an error comes with the summary at that point.\<close>

fun resolve_domains ::
  "IPResolver \<Rightarrow> group_label \<Rightarrow> string list \<Rightarrow>
   string set \<times> string list \<times> string set \<times> ResolveSummary \<Rightarrow>
   (resolve_error \<times> ResolveSummary) + (string set \<times> string list \<times> string set \<times> ResolveSummary)" where
  "resolve_domains resolver lbl [] st = Inr st"
| "resolve_domains resolver lbl (d # ds) (seenHosts, mergedHosts, seenDomains, summary) =
    (if strings_TrimSpace d = [] then Inl (EmptyDomainEntry lbl, summary)
     else if strings_TrimSpace d \<in> seenDomains
       then resolve_domains resolver lbl ds (seenHosts, mergedHosts, seenDomains, summary)
     else case lookupIPv4 resolver (strings_TrimSpace d) of
       Inl err \<Rightarrow>
         Inl (DomainLookupFailed lbl (strings_TrimSpace d) err,
              summary\<lparr>DomainsCount := DomainsCount summary + 1\<rparr>)
     | Inr ips \<Rightarrow>
         if length ips = 0
           then Inl (NoIPv4Records lbl (strings_TrimSpace d),
                     summary\<lparr>DomainsCount := DomainsCount summary + 1\<rparr>)
         else case merge_ips ips
                (seenHosts, mergedHosts, summary\<lparr>DomainsCount := DomainsCount summary + 1\<rparr>) of
           (seenHosts', mergedHosts', summary') \<Rightarrow>
             resolve_domains resolver lbl ds
               (seenHosts', mergedHosts', insert (strings_TrimSpace d) seenDomains, summary'))"

text \<open>
  The loop over the groups, from index \<open>i\<close>: the summary, the error and the groups as the
  loop leaves them (it assigns \<^verbatim>\<open>group.Hosts\<close> in place once a group is done).
\<close>

fun resolve_groups ::
  "IPResolver \<Rightarrow> int \<Rightarrow> RouteGroup list \<Rightarrow> ResolveSummary \<Rightarrow>
   ResolveSummary \<times> resolve_error option \<times> RouteGroup list" where
  "resolve_groups resolver i [] summary = (summary, None, [])"
| "resolve_groups resolver i (g # gs) summary =
    (if length (g_Domains g) = 0 then
       (case resolve_groups resolver (i + 1) gs summary of
         (summary', err, gs') \<Rightarrow> (summary', err, g # gs'))
     else if (g_Gateway g = []) = (g_Interface g = []) then
       (summary, Some (ResolveExactlyOne (groupLabel g i)), g # gs)
     else case merge_hosts (g_Hosts g) ({}, []) of
       (seenHosts, mergedHosts) \<Rightarrow>
         (case resolve_domains resolver (groupLabel g i) (g_Domains g)
                 (seenHosts, mergedHosts, {}, summary\<lparr>Groups := Groups summary + 1\<rparr>) of
           Inl (err, summary') \<Rightarrow> (summary', Some err, g # gs)
         | Inr (seenHosts', mergedHosts', seenDomains', summary') \<Rightarrow>
             (case resolve_groups resolver (i + 1) gs summary' of
               (summary'', err, gs') \<Rightarrow> (summary'', err, g\<lparr>g_Hosts := mergedHosts'\<rparr> # gs'))))"

text \<open>
  \<^verbatim>\<open>ResolveDomainsWithResolver\<close>: the summary, the error and the file as the call leaves
  it (\<open>None\<close> is the nil pointer).
\<close>

definition ResolveDomainsWithResolver ::
  "RoutesFile option \<Rightarrow> IPResolver \<Rightarrow> ResolveSummary \<times> resolve_error option \<times> RoutesFile option" where
  "ResolveDomainsWithResolver rf resolver =
    (case rf of
      None \<Rightarrow> (\<lparr>Groups = 0, DomainsCount = 0, IPsAdded = 0\<rparr>, None, None)
    | Some f \<Rightarrow>
        if length (Routes f) = 0 then (\<lparr>Groups = 0, DomainsCount = 0, IPsAdded = 0\<rparr>, None, Some f)
        else case resolve_groups resolver 0 (Routes f) \<lparr>Groups = 0, DomainsCount = 0, IPsAdded = 0\<rparr> of
          (summary, err, gs) \<Rightarrow> (summary, err, Some (f\<lparr>Routes := gs\<rparr>)))"

section \<open>Package keenetic\<close>

subsection \<open>Flexible scalars\<close>




subsection \<open>Routes on the wire\<close>

text \<open>The struct \<^verbatim>\<open>Route\<close> of package keenetic; a nil pointer is \<open>None\<close>.\<close>

record kRoute =
  k_Host :: "string option"
  k_Network :: "string option"
  k_IP :: "string option"
  k_Mask :: "string option"
  k_Prefix :: "int option"
  k_PrefixLen :: "int option"
  k_Comment :: "string option"
  k_Gateway :: "string option"
  k_Interface :: "string option"
  k_Auto :: "bool option"
  k_Reject :: "bool option"
  k_No :: "bool option"

definition stringValue :: "string option \<Rightarrow> string" where
  "stringValue v = (case v of None \<Rightarrow> [] | Some s \<Rightarrow> strings_TrimSpace s)"

definition boolValue :: "bool option \<Rightarrow> bool" where
  "boolValue v = (case v of None \<Rightarrow> False | Some b \<Rightarrow> b)"

definition intValue :: "int option \<Rightarrow> int" where
  "intValue v = (case v of None \<Rightarrow> 0 | Some i \<Rightarrow> i)"

text \<open>The methods by which \<^verbatim>\<open>Route\<close> implements \<^verbatim>\<open>routes.RouteView\<close>.\<close>

definition kRoute_view :: "kRoute \<Rightarrow> RouteView" where
  "kRoute_view r =
    \<lparr>HostValue = stringValue (k_Host r), NetworkValue = stringValue (k_Network r),
     IPValue = stringValue (k_IP r), MaskValue = stringValue (k_Mask r),
     PrefixValue = intValue (k_Prefix r), PrefixLenValue = intValue (k_PrefixLen r),
     CommentValue = stringValue (k_Comment r), GatewayValue = stringValue (k_Gateway r),
     InterfaceValue = stringValue (k_Interface r), AutoValue = boolValue (k_Auto r),
     RejectValue = boolValue (k_Reject r)\<rparr>"

text \<open>
  The elements of a request payload: \<open>RouteEnvelope r\<close> is the struct
  \<^verbatim>\<open>RouteEnvelope{IP: RouteWrapper{Route: r}}\<close> and \<open>SaveConfig b\<close> is
  \<^verbatim>\<open>SaveConfig{System: SystemConfig{Configuration: ConfigSave{Save: b}}}\<close>.
\<close>

datatype payload_elem = RouteEnvelope kRoute | SaveConfig bool

definition routeEnvelope :: "kRoute \<Rightarrow> payload_elem" where
  "routeEnvelope route = RouteEnvelope route"

definition saveConfigPayload :: payload_elem where
  "saveConfigPayload = SaveConfig True"

text \<open>
  JSON values, and what \<^verbatim>\<open>json.Marshal\<close> makes of the program's values: a struct is an
  object with its fields in the order of their declaration, a field tagged
  \<^verbatim>\<open>omitempty\<close> left out when its pointer is nil.  A request body is kept as the JSON
  value its bytes encode.
\<close>

datatype json =
    JNull | JBool bool | JNumber int | JString string | JArray "json list"
  | JObject "(string \<times> json) list"

definition omitempty :: "string \<Rightarrow> ('a \<Rightarrow> json) \<Rightarrow> 'a option \<Rightarrow> (string \<times> json) list" where
  "omitempty name enc v = (case v of None \<Rightarrow> [] | Some x \<Rightarrow> [(name, enc x)])"

definition marshal_Route :: "kRoute \<Rightarrow> json" where
  "marshal_Route r = JObject
    (omitempty ''host'' JString (k_Host r) @ omitempty ''network'' JString (k_Network r) @
     omitempty ''ip'' JString (k_IP r) @ omitempty ''mask'' JString (k_Mask r) @
     omitempty ''prefix'' JNumber (k_Prefix r) @ omitempty ''prefixlen'' JNumber (k_PrefixLen r) @
     omitempty ''comment'' JString (k_Comment r) @ omitempty ''gateway'' JString (k_Gateway r) @
     omitempty ''interface'' JString (k_Interface r) @ omitempty ''auto'' JBool (k_Auto r) @
     omitempty ''reject'' JBool (k_Reject r) @ omitempty ''no'' JBool (k_No r))"

fun marshal_elem :: "payload_elem \<Rightarrow> json" where
  "marshal_elem (RouteEnvelope r) = JObject [(''ip'', JObject [(''route'', marshal_Route r)])]"
| "marshal_elem (SaveConfig b) =
    JObject [(''system'', JObject [(''configuration'', JObject [(''save'', JBool b)])])]"

definition marshal_payload :: "payload_elem list \<Rightarrow> json" where
  "marshal_payload payload = JArray (map marshal_elem payload)"

subsection \<open>The HTTP session\<close>

datatype http_method = GET | POST

record request =
  req_method :: http_method
  req_url :: string
  req_content_type :: "string option"
  req_body :: "json option"

text \<open>
  A response: its status code, its headers and the outcome of reading its body (an error
  or the bytes).  \<^verbatim>\<open>Header.Get\<close> gives the empty string for a header that is absent.
\<close>

record response =
  StatusCode :: int
  Header :: "string \<rightharpoonup> string"
  Body :: "string + string"

definition Header_Get :: "response \<Rightarrow> string \<Rightarrow> string" where
  "Header_Get resp key = (case Header resp key of None \<Rightarrow> [] | Some v \<Rightarrow> v)"

text \<open>
  What the client takes from outside the program:
  \<^item> \<open>roundTrip\<close>: the answer of \<^verbatim>\<open>http.Client.Do\<close> to a request, an error or a response;
    it may depend on the requests sent before (the router's state, the cookie jar);
  \<^item> \<open>NewRequest_err\<close>: the error of \<^verbatim>\<open>http.NewRequest\<close> for a URL, if any;
  \<^item> \<open>JoinPath\<close>: \<^verbatim>\<open>url.JoinPath\<close>;
  \<^item> \<open>Unmarshal_routes\<close>: \<^verbatim>\<open>json.Unmarshal\<close> of a response body into a slice of routes;
  \<^item> \<open>md5_Sum\<close> and \<open>sha256_Sum256\<close>: the digests of \<^verbatim>\<open>crypto/md5\<close> and
    \<^verbatim>\<open>crypto/sha256\<close>, as lists of bytes.
\<close>

record env =
  roundTrip :: "request list \<Rightarrow> request \<Rightarrow> string + response"
  NewRequest_err :: "string \<Rightarrow> string option"
  JoinPath :: "string \<Rightarrow> string \<Rightarrow> string + string"
  Unmarshal_routes :: "string \<Rightarrow> string + kRoute list"
  md5_Sum :: "string \<Rightarrow> nat list"
  sha256_Sum256 :: "string \<Rightarrow> nat list"

text \<open>The struct \<^verbatim>\<open>Client\<close>; its \<^verbatim>\<open>httpClient\<close> is the \<open>roundTrip\<close> of the environment.\<close>

record Client =
  baseURL :: string
  login :: string
  password :: string
  authed :: bool

text \<open>The errors of the client, one constructor for each \<^verbatim>\<open>fmt.Errorf\<close> and each error
  passed on.\<close>

datatype client_error =
    AuthGetFailed string
  | AuthGetStatus int
  | AuthMissingHeaders
  | AuthPostNewRequest string
  | AuthPostFailed string
  | AuthPostStatus int
  | BuildRequestURL string
  | NewRequestFailed string
  | RequestFailed string string
  | ReadBodyFailed string
  | RequestStatus string int string
  | DecodeRoutes string
  | InvalidCIDR string
  | AddRoutesFailed client_error
  | AddRoutesBatchAt int client_error

text \<open>
  \<^verbatim>\<open>hex.EncodeToString\<close>: two lower-case hexadecimal digits for each byte, the high four
  bits first (a byte is below 256, where \<open>b div 16 mod 16\<close> is \<open>b div 16\<close>).
\<close>

definition hex_EncodeToString :: "nat list \<Rightarrow> string" where
  "hex_EncodeToString bs = concat (map (\<lambda>b. [hexdigit (b div 16 mod 16), hexdigit (b mod 16)]) bs)"

text \<open>
  Sending a request with \<^verbatim>\<open>http.Client.Do\<close>: the answer, and the requests sent so far
  with this one added.  \<^verbatim>\<open>http.Client.Get\<close> makes the request first, which may fail.
\<close>

definition http_Do :: "env \<Rightarrow> request list \<Rightarrow> request \<Rightarrow> (string + response) \<times> request list" where
  "http_Do E sent req = (roundTrip E sent req, sent @ [req])"

definition http_Get :: "env \<Rightarrow> request list \<Rightarrow> string \<Rightarrow> (string + response) \<times> request list" where
  "http_Get E sent url =
    (case NewRequest_err E url of
      Some err \<Rightarrow> (Inl err, sent)
    | None \<Rightarrow>
        http_Do E sent \<lparr>req_method = GET, req_url = url, req_content_type = None, req_body = None\<rparr>)"

text \<open>The request \<^verbatim>\<open>Client.auth\<close> posts.\<close>

definition auth_post :: "Client \<Rightarrow> string \<Rightarrow> request" where
  "auth_post c shaHex =
    \<lparr>req_method = POST, req_url = baseURL c @ ''/auth'',
     req_content_type = Some ''application/json'',
     req_body = Some (JObject [(''login'', JString (login c)), (''password'', JString shaHex)])\<rparr>"

text \<open>\<^verbatim>\<open>Client.auth\<close>: the error, the client and the requests sent.\<close>

definition auth :: "env \<Rightarrow> Client \<Rightarrow> request list \<Rightarrow> client_error option \<times> Client \<times> request list" where
  "auth E c sent =
    (if authed c then (None, c, sent)
     else case http_Get E sent (baseURL c @ ''/auth'') of
       (Inl err, sent1) \<Rightarrow> (Some (AuthGetFailed err), c, sent1)
     | (Inr getResp, sent1) \<Rightarrow>
         if StatusCode getResp = 200 then (None, c\<lparr>authed := True\<rparr>, sent1)
         else if StatusCode getResp \<noteq> 401 then (Some (AuthGetStatus (StatusCode getResp)), c, sent1)
         else if Header_Get getResp ''X-NDM-Realm'' = [] \<or> Header_Get getResp ''X-NDM-Challenge'' = []
           then (Some AuthMissingHeaders, c, sent1)
         else case NewRequest_err E (baseURL c @ ''/auth'') of
           Some err \<Rightarrow> (Some (AuthPostNewRequest err), c, sent1)
         | None \<Rightarrow>
             (case http_Do E sent1
                     (auth_post c
                        (hex_EncodeToString (sha256_Sum256 E
                           (Header_Get getResp ''X-NDM-Challenge'' @
                            hex_EncodeToString (md5_Sum E
                              (login c @ '':'' @ Header_Get getResp ''X-NDM-Realm'' @ '':'' @
                               password c)))))) of
               (Inl err, sent2) \<Rightarrow> (Some (AuthPostFailed err), c, sent2)
             | (Inr postResp, sent2) \<Rightarrow>
                 if StatusCode postResp \<noteq> 200
                   then (Some (AuthPostStatus (StatusCode postResp)), c, sent2)
                 else (None, c\<lparr>authed := True\<rparr>, sent2)))"

text \<open>\<^verbatim>\<open>Client.doRequest\<close>: GET without a body, POST with one.\<close>

definition doRequest ::
  "env \<Rightarrow> request list \<Rightarrow> string \<Rightarrow> string \<Rightarrow> json option \<Rightarrow>
   (client_error + int \<times> string) \<times> request list" where
  "doRequest E sent u query bodyBytes =
    (case NewRequest_err E u of
      Some err \<Rightarrow> (Inl (NewRequestFailed err), sent)
    | None \<Rightarrow>
        (case http_Do E sent
                \<lparr>req_method = (if bodyBytes = None then GET else POST), req_url = u,
                 req_content_type = (if bodyBytes = None then None else Some ''application/json''),
                 req_body = bodyBytes\<rparr> of
          (Inl err, sent1) \<Rightarrow> (Inl (RequestFailed query err), sent1)
        | (Inr resp, sent1) \<Rightarrow>
            (case Body resp of
              Inl err \<Rightarrow> (Inl (ReadBodyFailed err), sent1)
            | Inr data \<Rightarrow> (Inr (StatusCode resp, data), sent1))))"

text \<open>\<^verbatim>\<open>Client.Request\<close>: the error or the body, the client and the requests sent.\<close>

definition Request ::
  "env \<Rightarrow> string \<Rightarrow> json option \<Rightarrow> Client \<Rightarrow> request list \<Rightarrow>
   (client_error + string) \<times> Client \<times> request list" where
  "Request E query body c sent =
    (case auth E c sent of
      (Some err, c1, sent1) \<Rightarrow> (Inl err, c1, sent1)
    | (None, c1, sent1) \<Rightarrow>
        (case JoinPath E (baseURL c1) query of
          Inl err \<Rightarrow> (Inl (BuildRequestURL err), c1, sent1)
        | Inr u \<Rightarrow>
            (case doRequest E sent1 u query body of
              (Inl err, sent2) \<Rightarrow> (Inl err, c1, sent2)
            | (Inr (status, data), sent2) \<Rightarrow>
                if status = 401 then
                  (case auth E (c1\<lparr>authed := False\<rparr>) sent2 of
                    (Some err, c2, sent3) \<Rightarrow> (Inl err, c2, sent3)
                  | (None, c2, sent3) \<Rightarrow>
                      (case doRequest E sent3 u query body of
                        (Inl err, sent4) \<Rightarrow> (Inl err, c2, sent4)
                      | (Inr (status2, data2), sent4) \<Rightarrow>
                          if status2 \<noteq> 200
                            then (Inl (RequestStatus query status2 data2), c2, sent4)
                          else (Inr data2, c2, sent4)))
                else if status \<noteq> 200 then (Inl (RequestStatus query status data), c1, sent2)
                else (Inr data, c1, sent2))))"

subsection \<open>Reading, deleting and adding routes\<close>

definition routeBatchSize :: nat where
  "routeBatchSize = 50"

definition GetRoutes ::
  "env \<Rightarrow> Client \<Rightarrow> request list \<Rightarrow> (client_error + kRoute list) \<times> Client \<times> request list" where
  "GetRoutes E c sent =
    (case Request E ''rci/ip/route'' None c sent of
      (Inl err, c1, sent1) \<Rightarrow> (Inl err, c1, sent1)
    | (Inr data, c1, sent1) \<Rightarrow>
        (case Unmarshal_routes E data of
          Inl err \<Rightarrow> (Inl (DecodeRoutes err), c1, sent1)
        | Inr rs \<Rightarrow> (Inr rs, c1, sent1)))"

definition DeleteAllRoutes ::
  "env \<Rightarrow> Client \<Rightarrow> request list \<Rightarrow> client_error option \<times> Client \<times> request list" where
  "DeleteAllRoutes E c sent =
    (case GetRoutes E c sent of
      (Inl err, c1, sent1) \<Rightarrow> (Some err, c1, sent1)
    | (Inr rs, c1, sent1) \<Rightarrow>
        (case Request E ''rci/''
                (Some (marshal_payload
                   (map (\<lambda>r. routeEnvelope (r\<lparr>k_No := Some True\<rparr>)) rs @ [saveConfigPayload])))
                c1 sent1 of
          (Inl err, c2, sent2) \<Rightarrow> (Some err, c2, sent2)
        | (Inr data, c2, sent2) \<Rightarrow> (None, c2, sent2)))"

definition buildRoute :: "Route \<Rightarrow> client_error + kRoute" where
  "buildRoute e =
    (if strings_Contains (Host e) ''/'' then
       (case ParseCIDR (Host e) of
         None \<Rightarrow> Inl (InvalidCIDR (Host e))
       | Some (ip, ipNet) \<Rightarrow>
           Inr \<lparr>k_Host = None, k_Network = Some (IP_String (IP ipNet)), k_IP = None,
                k_Mask = Some (IP_String (Mask ipNet)), k_Prefix = None, k_PrefixLen = None,
                k_Comment = Some (Comment e),
                k_Gateway = (if Gateway e \<noteq> [] then Some (Gateway e) else None),
                k_Interface = (if Interface e \<noteq> [] then Some (Interface e) else None),
                k_Auto = Some (Auto e), k_Reject = (if Reject e then Some True else None),
                k_No = None\<rparr>)
     else
       Inr \<lparr>k_Host = Some (Host e), k_Network = None, k_IP = None, k_Mask = None,
            k_Prefix = None, k_PrefixLen = None, k_Comment = Some (Comment e),
            k_Gateway = (if Gateway e \<noteq> [] then Some (Gateway e) else None),
            k_Interface = (if Interface e \<noteq> [] then Some (Interface e) else None),
            k_Auto = Some (Auto e), k_Reject = (if Reject e then Some True else None),
            k_No = None\<rparr>)"

text \<open>The inner loop of \<^verbatim>\<open>AddRoutes\<close> over one batch; \<open>payload\<close> is the slice built so far.\<close>

fun build_payload :: "Route list \<Rightarrow> payload_elem list \<Rightarrow> client_error + payload_elem list" where
  "build_payload [] payload = Inr payload"
| "build_payload (e # es) payload =
    (case buildRoute e of
      Inl err \<Rightarrow> Inl (AddRoutesFailed err)
    | Inr route \<Rightarrow> build_payload es (payload @ [routeEnvelope route]))"

text \<open>The outer loop of \<^verbatim>\<open>AddRoutes\<close> from index \<open>i\<close>; the batch is
  \<^verbatim>\<open>entries[i:min(i+routeBatchSize, len(entries))]\<close>.\<close>

function AddRoutes_loop ::
  "env \<Rightarrow> Route list \<Rightarrow> nat \<Rightarrow> Client \<Rightarrow> request list \<Rightarrow>
   client_error option \<times> Client \<times> request list" where
  "AddRoutes_loop E entries i c sent =
    (if i < length entries then
       (case build_payload
               (take (min (i + routeBatchSize) (length entries) - i) (drop i entries)) [] of
         Inl err \<Rightarrow> (Some err, c, sent)
       | Inr payload \<Rightarrow>
           (case Request E ''rci/'' (Some (marshal_payload (payload @ [saveConfigPayload]))) c sent of
             (Inl err, c1, sent1) \<Rightarrow> (Some (AddRoutesBatchAt (int i) err), c1, sent1)
           | (Inr data, c1, sent1) \<Rightarrow> AddRoutes_loop E entries (i + routeBatchSize) c1 sent1))
     else (None, c, sent))"
  by pat_completeness auto
termination
  by (relation "measure (\<lambda>(E, entries, i, c, sent). length entries - i)")
    (auto simp: routeBatchSize_def)

declare AddRoutes_loop.simps [simp del]

definition AddRoutes ::
  "env \<Rightarrow> Route list \<Rightarrow> Client \<Rightarrow> request list \<Rightarrow> client_error option \<times> Client \<times> request list" where
  "AddRoutes E entries c sent =
    (if length entries = 0 then (None, c, sent) else AddRoutes_loop E entries 0 c sent)"

text \<open>
  The words of the specification for the batches of \<^verbatim>\<open>AddRoutes\<close>: the list split
  into batches of a fixed size, in order, the last one holding what is left.
\<close>

function batches :: "nat \<Rightarrow> 'a list \<Rightarrow> 'a list list" where
  "batches n xs = (if n = 0 \<or> xs = [] then [] else take n xs # batches n (drop n xs))"
  by pat_completeness auto
termination
  by (relation "measure (\<lambda>(n, xs). length xs)") auto

declare batches.simps [simp del]

subsection \<open>A router and a client for the examples\<close>

text \<open>
  The scenario of the specification: login \<^verbatim>\<open>user\<close>, password \<^verbatim>\<open>pass\<close>, and a router
  that answers the first request, the probe, with 401, realm \<^verbatim>\<open>realm\<close> and challenge
  \<^verbatim>\<open>challenge\<close>, and every later request with 200 and an empty list of routes.  The two
  digests are those of MD5 and SHA-256 on the texts of this scenario.
\<close>

definition test_client :: Client where
  "test_client = \<lparr>baseURL = ''http://192.168.1.1'', login = ''user'', password = ''pass'', authed = False\<rparr>"

definition challenge_response :: response where
  "challenge_response =
    \<lparr>StatusCode = 401,
     Header = [''X-NDM-Realm'' \<mapsto> ''realm'', ''X-NDM-Challenge'' \<mapsto> ''challenge''],
     Body = Inr []\<rparr>"

definition ok_response :: response where
  "ok_response = \<lparr>StatusCode = 200, Header = Map.empty, Body = Inr ''[]''\<rparr>"

definition test_router :: env where
  "test_router =
    \<lparr>roundTrip = (\<lambda>sent req. if sent = [] then Inr challenge_response else Inr ok_response),
     NewRequest_err = (\<lambda>url. None),
     JoinPath = (\<lambda>base elem. Inr (base @ ''/'' @ elem)),
     Unmarshal_routes = (\<lambda>data. Inr []),
     md5_Sum = (\<lambda>s. if s = ''user:realm:pass''
        then [132, 147, 251, 197, 59, 165, 130, 251, 76, 4, 76, 69, 107, 220, 64, 235] else []),
     sha256_Sum256 = (\<lambda>s. if s = ''challenge8493fbc53ba582fb4c044c456bdc40eb''
        then [65, 230, 180, 63, 37, 51, 103, 48, 108, 0, 139, 63, 134, 61, 156, 41, 247, 227, 58,
              61, 125, 138, 114, 229, 76, 37, 27, 182, 183, 11, 241, 4] else [])\<rparr>"

text \<open>The same router sending an empty realm, and sending no challenge.\<close>

definition no_realm_router :: env where
  "no_realm_router =
    test_router\<lparr>roundTrip := (\<lambda>sent req. Inr (challenge_response
       \<lparr>Header := [''X-NDM-Realm'' \<mapsto> [], ''X-NDM-Challenge'' \<mapsto> ''challenge'']\<rparr>))\<rparr>"

definition no_challenge_router :: env where
  "no_challenge_router =
    test_router\<lparr>roundTrip := (\<lambda>sent req. Inr (challenge_response
       \<lparr>Header := [''X-NDM-Realm'' \<mapsto> ''realm'']\<rparr>))\<rparr>"

text \<open>The request \<^verbatim>\<open>doRequest\<close> makes for a payload and a URL, and the probe of
  \<^verbatim>\<open>auth\<close>.\<close>

definition post_payload :: "string \<Rightarrow> payload_elem list \<Rightarrow> request" where
  "post_payload u payload =
    \<lparr>req_method = POST, req_url = u, req_content_type = Some ''application/json'',
     req_body = Some (marshal_payload payload)\<rparr>"

definition auth_probe :: "Client \<Rightarrow> request" where
  "auth_probe c =
    \<lparr>req_method = GET, req_url = baseURL c @ ''/auth'', req_content_type = None, req_body = None\<rparr>"


section \<open>Evaluation\<close>

text \<open>The defining equations that evaluate the library functions on a given text.\<close>

lemma replicate_numeral_eval:
  "replicate (numeral k) x = x # replicate (pred_numeral k) x"
  by (simp add: numeral_eq_Suc)

lemma CIDRMask_loop_numeral:
  "CIDRMask_loop (numeral k) n =
    (if n \<ge> 8 then 255 # CIDRMask_loop (pred_numeral k) (n - 8)
     else (255 - 255 div 2 ^ n) # CIDRMask_loop (pred_numeral k) 0)"
  by (simp add: numeral_eq_Suc)

lemma leading_ones_numeral:
  "leading_ones (numeral k) v =
    (if v AND 128 \<noteq> 0
     then (case leading_ones (pred_numeral k) ((v * 2) mod 256) of (n, v') \<Rightarrow> (Suc n, v'))
     else (0, v))"
  by (simp add: numeral_eq_Suc)

lemmas go_eval =
  strings_TrimSpace_def TrimRightSpace_def TrimLeftSpace_def trim_left.simps tok_len_def
  space_runes_def strings_Trim_def strings_ToLower_def byte_def digit_val_def hex_val_def
  uitoa.simps Itoa_def Atoi_def parseIPv4_def parseIPv6_def parseIPv6_loop.simps
  ParseAddr_def ParseIP_def ParseIP_To4_def v4InV6Prefix_def To4_def CIDRMask_def allFF12_def
  IP_Mask_def dtoi_def ParseCIDR_def IPMask_Size_def IPv4Mask_def string4_def hexdigit_def
  appendHex_def v6u16_def zero_run_end_def zero_run_def string6_loop.simps string6_def
  IP_String_def networkNumberAndMask_def IPNet_String_def replicate_numeral_eval
  char_of_def bit_Suc_0_iff CIDRMask_loop_numeral leading_ones_numeral Let_def

text \<open>Sample hosts.\<close>

lemma isIPv4OrCIDR_samples:
  "isIPv4OrCIDR ''8.8.8.8''" "isIPv4OrCIDR ''192.168.0.0/24''" "isIPv4OrCIDR ''10.1.2.3/8''"
  by (simp_all add: isIPv4OrCIDR_def go_eval)

lemma normalizeHost_samples:
  "normalizeHost ''8.8.8.8'' = Inr ''8.8.8.8''"
  "normalizeHost ''192.168.0.0/24'' = Inr ''192.168.0.0/24''"
  "normalizeHost ''10.1.2.3/8'' = Inr ''10.0.0.0/8''"
  "normalizeHost ''9.9.9.9'' = Inr ''9.9.9.9''"
  by (simp_all add: normalizeHost_def go_eval)

section \<open>Properties of flattening\<close>

lemma flatten_groups_skip:
  "g_Hosts g = [] \<Longrightarrow> flatten_groups (pre @ g # post) out = flatten_groups (pre @ post) out"
proof (induction pre arbitrary: out)
  case Nil
  then show ?case by simp
next
  case (Cons p pre)
  then show ?case by (simp split: sum.splits)
qed

text \<open>
  C10: \<^verbatim>\<open>FlattenToEntries\<close> checks that exactly one of gateway and interface is set only
  for a group with at least one host.  A group with no hosts is skipped: the result is the
  one the file without that group has, whatever the group's gateway and interface are, and a
  file holding only such a group flattens to no routes and no error.
\<close>

theorem FlattenToEntries_skips_hostless_group:
  "g_Hosts g = [] \<Longrightarrow>
     FlattenToEntries (Some \<lparr>Routes = pre @ g # post\<rparr>) =
       FlattenToEntries (Some \<lparr>Routes = pre @ post\<rparr>) \<and>
     FlattenToEntries (Some \<lparr>Routes = [g]\<rparr>) = Inr []"
  by (simp add: FlattenToEntries_def flatten_groups_skip)

text \<open>The witness: a group with both gateway and interface and no hosts, before a valid group.\<close>

theorem FlattenToEntries_skips_hostless_group_witness:
  "g_Hosts \<lparr>g_Comment = ''vpn'', g_Gateway = ''10.0.0.1'', g_Interface = ''Wireguard0'',
      g_Auto = False, g_Reject = False, g_Hosts = [], g_Domains = []\<rparr> = [] \<and>
   FlattenToEntries (Some \<lparr>Routes = [] @
       \<lparr>g_Comment = ''vpn'', g_Gateway = ''10.0.0.1'', g_Interface = ''Wireguard0'',
        g_Auto = False, g_Reject = False, g_Hosts = [], g_Domains = []\<rparr> #
       [\<lparr>g_Comment = ''dns'', g_Gateway = ''10.0.0.1'', g_Interface = [], g_Auto = True,
         g_Reject = False, g_Hosts = [''8.8.8.8''], g_Domains = []\<rparr>]\<rparr>) =
     Inr [\<lparr>Host = ''8.8.8.8'', Comment = ''dns'', Gateway = ''10.0.0.1'', Interface = [],
            Auto = True, Reject = False\<rparr>] \<and>
   FlattenToEntries (Some \<lparr>Routes =
       [\<lparr>g_Comment = ''vpn'', g_Gateway = ''10.0.0.1'', g_Interface = ''Wireguard0'',
         g_Auto = False, g_Reject = False, g_Hosts = [], g_Domains = []\<rparr>]\<rparr>) = Inr []"
  using FlattenToEntries_skips_hostless_group
    [of "\<lparr>g_Comment = ''vpn'', g_Gateway = ''10.0.0.1'', g_Interface = ''Wireguard0'',
          g_Auto = False, g_Reject = False, g_Hosts = [], g_Domains = []\<rparr>" "[]"
        "[\<lparr>g_Comment = ''dns'', g_Gateway = ''10.0.0.1'', g_Interface = [], g_Auto = True,
           g_Reject = False, g_Hosts = [''8.8.8.8''], g_Domains = []\<rparr>]"]
  by (simp add: FlattenToEntries_def normalizeHost_def go_eval)

lemma flatten_groups_append:
  "flatten_groups pre out = Inr out' \<Longrightarrow> flatten_groups (pre @ rest) out = flatten_groups rest out'"
proof (induction pre arbitrary: out)
  case Nil
  then show ?case by simp
next
  case (Cons p pre)
  then show ?case by (simp split: sum.splits if_splits)
qed

lemma resolve_groups_append:
  "resolve_groups res i pre s = (s', None, pre') \<Longrightarrow>
   resolve_groups res i (pre @ rest) s =
     (case resolve_groups res (i + int (length pre)) rest s' of
       (s'', e, rest') \<Rightarrow> (s'', e, pre' @ rest'))"
proof (induction pre arbitrary: i s pre')
  case Nil
  then show ?case by simp
next
  case (Cons p pre)
  show ?case
  proof (cases "length (g_Domains p) = 0")
    case True
    with Cons.prems obtain q where q: "resolve_groups res (i + 1) pre s = (s', None, q)" "pre' = p # q"
      by (auto split: prod.splits)
    from Cons.IH [OF q(1)] True q(2) show ?thesis
      by (simp add: add.assoc split: prod.splits)
  next
    case False
    with Cons.prems obtain sh mh sd sm q where
      ok: "(g_Gateway p = []) \<noteq> (g_Interface p = [])"
      and m: "resolve_domains res (groupLabel p i) (g_Domains p)
               (fst (merge_hosts (g_Hosts p) ({}, [])), snd (merge_hosts (g_Hosts p) ({}, [])), {},
                s\<lparr>Groups := Groups s + 1\<rparr>) = Inr (sh, mh, sd, sm)"
      and q: "resolve_groups res (i + 1) pre sm = (s', None, q)" "pre' = p\<lparr>g_Hosts := mh\<rparr> # q"
      by (auto split: prod.splits sum.splits if_splits)
    from Cons.IH [OF q(1)] False ok m q(2) show ?thesis
      by (auto simp: add.assoc split: prod.splits)
  qed
qed

lemma resolve_groups_append_failed:
  "resolve_groups res i pre s = (s', Some e, pre') \<Longrightarrow>
   resolve_groups res i (pre @ rest) s = (s', Some e, pre' @ rest)"
proof (induction pre arbitrary: i s pre')
  case Nil
  then show ?case by simp
next
  case (Cons p pre)
  show ?case
  proof (cases "length (g_Domains p) = 0")
    case True
    with Cons.prems obtain q where q: "resolve_groups res (i + 1) pre s = (s', Some e, q)" "pre' = p # q"
      by (auto split: prod.splits)
    from Cons.IH [OF q(1)] True q(2) show ?thesis
      by simp
  next
    case False
    show ?thesis
    proof (cases "(g_Gateway p = []) = (g_Interface p = [])")
      case True
      with False Cons.prems show ?thesis by auto
    next
      case ok: False
      show ?thesis
      proof (cases "resolve_domains res (groupLabel p i) (g_Domains p)
               (fst (merge_hosts (g_Hosts p) ({}, [])), snd (merge_hosts (g_Hosts p) ({}, [])), {},
                s\<lparr>Groups := Groups s + 1\<rparr>)")
        case (Inl a)
        with False ok Cons.prems show ?thesis
          by (auto split: prod.splits)
      next
        case (Inr b)
        obtain sh mh sd sm where b: "b = (sh, mh, sd, sm)" by (cases b) auto
        with Inr False ok Cons.prems obtain q where
          q: "resolve_groups res (i + 1) pre sm = (s', Some e, q)" "pre' = p\<lparr>g_Hosts := mh\<rparr> # q"
          by (auto split: prod.splits)
        from Cons.IH [OF q(1)] False ok Inr b q(2) show ?thesis
          by (auto split: prod.splits)
      qed
    qed
  qed
qed

text \<open>
  C5 (as amended): let a group set both gateway and interface, or neither.  If it has at
  least one host and the groups before it flatten without error, \<^verbatim>\<open>FlattenToEntries\<close>
  fails, and when the group has a comment the error is the one naming that comment.  If it
  has at least one domain and the groups before it resolve without error,
  \<^verbatim>\<open>ResolveDomainsWithResolver\<close> fails with the error naming the group by its comment, or by
  its position (counted from 1) when it has no comment; the groups before it keep their
  resolved hosts.

  Any group with no hosts is skipped by \<^verbatim>\<open>FlattenToEntries\<close>: the file flattens as it
  does without the group, and a file holding only that group flattens to no routes and no
  error.  Any group with no domains is skipped by \<^verbatim>\<open>ResolveDomainsWithResolver\<close>: the
  group is returned as it was and adds nothing to the summary; when the groups before it
  resolve without error the call goes on with the groups after it, from the summary reached
  and the next position, and its error is theirs; when a group before it fails the call
  returns that error; and a file holding only that group resolves to the zero summary and no
  error.
\<close>

theorem exactly_one_violation:
  "((g_Gateway g \<noteq> []) = (g_Interface g \<noteq> []) \<longrightarrow>
      (g_Hosts g \<noteq> [] \<and> flatten_groups pre [] = Inr out \<longrightarrow>
         (\<exists>e. FlattenToEntries (Some \<lparr>Routes = pre @ g # post\<rparr>) = Inl e) \<and>
         (g_Comment g \<noteq> [] \<longrightarrow>
            FlattenToEntries (Some \<lparr>Routes = pre @ g # post\<rparr>) = Inl (ExactlyOne (g_Comment g)))) \<and>
      (g_Domains g \<noteq> [] \<and>
       resolve_groups res 0 pre \<lparr>Groups = 0, DomainsCount = 0, IPsAdded = 0\<rparr> = (s, None, pre') \<longrightarrow>
         ResolveDomainsWithResolver (Some \<lparr>Routes = pre @ g # post\<rparr>) res =
           (s, Some (ResolveExactlyOne
                  (if g_Comment g \<noteq> [] then Quoted (g_Comment g)
                   else Numbered (int (length pre) + 1))),
            Some \<lparr>Routes = pre' @ g # post\<rparr>))) \<and>
   (g_Hosts g = [] \<longrightarrow>
      FlattenToEntries (Some \<lparr>Routes = pre @ g # post\<rparr>) =
        FlattenToEntries (Some \<lparr>Routes = pre @ post\<rparr>) \<and>
      FlattenToEntries (Some \<lparr>Routes = [g]\<rparr>) = Inr []) \<and>
   (g_Domains g = [] \<longrightarrow>
      (resolve_groups res 0 pre \<lparr>Groups = 0, DomainsCount = 0, IPsAdded = 0\<rparr> = (s, None, pre') \<longrightarrow>
         ResolveDomainsWithResolver (Some \<lparr>Routes = pre @ g # post\<rparr>) res =
           (case resolve_groups res (int (length pre) + 1) post s of
             (s', e', post') \<Rightarrow> (s', e', Some \<lparr>Routes = pre' @ g # post'\<rparr>))) \<and>
      (resolve_groups res 0 pre \<lparr>Groups = 0, DomainsCount = 0, IPsAdded = 0\<rparr> = (s, Some e, pre') \<longrightarrow>
         ResolveDomainsWithResolver (Some \<lparr>Routes = pre @ g # post\<rparr>) res =
           (s, Some e, Some \<lparr>Routes = pre' @ g # post\<rparr>)) \<and>
      ResolveDomainsWithResolver (Some \<lparr>Routes = [g]\<rparr>) res =
        (\<lparr>Groups = 0, DomainsCount = 0, IPsAdded = 0\<rparr>, None, Some \<lparr>Routes = [g]\<rparr>))"
proof -
  let ?zero = "\<lparr>Groups = 0, DomainsCount = 0, IPsAdded = 0\<rparr>"
  have flat: "FlattenToEntries (Some \<lparr>Routes = pre @ g # post\<rparr>) = Inl (ExactlyOne (g_Comment g))"
    if "(g_Gateway g \<noteq> []) = (g_Interface g \<noteq> [])" "g_Hosts g \<noteq> []"
      "flatten_groups pre [] = Inr out"
    using that by (simp add: FlattenToEntries_def flatten_groups_append)
  have res: "ResolveDomainsWithResolver (Some \<lparr>Routes = pre @ g # post\<rparr>) res =
           (s, Some (ResolveExactlyOne
                  (if g_Comment g \<noteq> [] then Quoted (g_Comment g)
                   else Numbered (int (length pre) + 1))),
            Some \<lparr>Routes = pre' @ g # post\<rparr>)"
    if both: "(g_Gateway g \<noteq> []) = (g_Interface g \<noteq> [])" and d: "g_Domains g \<noteq> []"
      and p: "resolve_groups res 0 pre ?zero = (s, None, pre')"
  proof -
    from both have neither: "(g_Gateway g = []) = (g_Interface g = [])" by auto
    from d p have "resolve_groups res 0 (pre @ g # post) ?zero =
        (s, Some (ResolveExactlyOne (groupLabel g (int (length pre)))), pre' @ g # post)"
      using neither by (simp add: resolve_groups_append)
    then show ?thesis
      by (simp add: ResolveDomainsWithResolver_def groupLabel_def)
  qed
  have skip_flat: "FlattenToEntries (Some \<lparr>Routes = pre @ g # post\<rparr>) =
        FlattenToEntries (Some \<lparr>Routes = pre @ post\<rparr>) \<and>
      FlattenToEntries (Some \<lparr>Routes = [g]\<rparr>) = Inr []"
    if "g_Hosts g = []"
    using that by (simp add: FlattenToEntries_def flatten_groups_skip)
  have skip_res: "ResolveDomainsWithResolver (Some \<lparr>Routes = pre @ g # post\<rparr>) res =
           (case resolve_groups res (int (length pre) + 1) post s of
             (s', e', post') \<Rightarrow> (s', e', Some \<lparr>Routes = pre' @ g # post'\<rparr>))"
    if d: "g_Domains g = []" and p: "resolve_groups res 0 pre ?zero = (s, None, pre')"
    using d by (simp add: ResolveDomainsWithResolver_def resolve_groups_append [OF p]
        split: prod.splits)
  have skip_failed: "ResolveDomainsWithResolver (Some \<lparr>Routes = pre @ g # post\<rparr>) res =
           (s, Some e, Some \<lparr>Routes = pre' @ g # post\<rparr>)"
    if p: "resolve_groups res 0 pre ?zero = (s, Some e, pre')"
    by (simp add: ResolveDomainsWithResolver_def resolve_groups_append_failed [OF p])
  have skip_single: "ResolveDomainsWithResolver (Some \<lparr>Routes = [g]\<rparr>) res =
        (?zero, None, Some \<lparr>Routes = [g]\<rparr>)"
    if "g_Domains g = []"
    using that by (simp add: ResolveDomainsWithResolver_def)
  from flat res skip_flat skip_res skip_failed skip_single show ?thesis
    by blast
qed

text \<open>
  The witness: after a valid group, a group with a comment, a host and a domain that sets both
  gateway and interface, and in its place a group that sets both and has no hosts and no
  domains.
\<close>

theorem exactly_one_violation_witness:
  "FlattenToEntries (Some \<lparr>Routes =
      [\<lparr>g_Comment = ''dns'', g_Gateway = ''10.0.0.1'', g_Interface = [], g_Auto = True,
        g_Reject = False, g_Hosts = [''8.8.8.8''], g_Domains = [''1.1.1.1'']\<rparr>] @
      \<lparr>g_Comment = ''vpn'', g_Gateway = ''10.0.0.1'', g_Interface = ''Wireguard0'',
       g_Auto = False, g_Reject = False, g_Hosts = [''9.9.9.9''], g_Domains = [''example.com'']\<rparr> #
      []\<rparr>) = Inl (ExactlyOne ''vpn'') \<and>
   ResolveDomainsWithResolver (Some \<lparr>Routes =
      [\<lparr>g_Comment = ''dns'', g_Gateway = ''10.0.0.1'', g_Interface = [], g_Auto = True,
        g_Reject = False, g_Hosts = [''8.8.8.8''], g_Domains = [''1.1.1.1'']\<rparr>] @
      \<lparr>g_Comment = ''vpn'', g_Gateway = ''10.0.0.1'', g_Interface = ''Wireguard0'',
       g_Auto = False, g_Reject = False, g_Hosts = [''9.9.9.9''], g_Domains = [''example.com'']\<rparr> #
      []\<rparr>) (\<lambda>d. Inl ''no such host'') =
     (\<lparr>Groups = 1, DomainsCount = 1, IPsAdded = 1\<rparr>,
      Some (ResolveExactlyOne (Quoted ''vpn'')),
      Some \<lparr>Routes =
        [\<lparr>g_Comment = ''dns'', g_Gateway = ''10.0.0.1'', g_Interface = [], g_Auto = True,
          g_Reject = False, g_Hosts = [''8.8.8.8'', ''1.1.1.1''], g_Domains = [''1.1.1.1'']\<rparr>] @
        \<lparr>g_Comment = ''vpn'', g_Gateway = ''10.0.0.1'', g_Interface = ''Wireguard0'',
         g_Auto = False, g_Reject = False, g_Hosts = [''9.9.9.9''], g_Domains = [''example.com'']\<rparr> #
        []\<rparr>) \<and>
   FlattenToEntries (Some \<lparr>Routes =
      [\<lparr>g_Comment = ''dns'', g_Gateway = ''10.0.0.1'', g_Interface = [], g_Auto = True,
        g_Reject = False, g_Hosts = [''8.8.8.8''], g_Domains = [''1.1.1.1'']\<rparr>,
       \<lparr>g_Comment = ''idle'', g_Gateway = ''10.0.0.1'', g_Interface = ''Wireguard0'',
        g_Auto = False, g_Reject = False, g_Hosts = [], g_Domains = []\<rparr>]\<rparr>) =
     Inr [\<lparr>Host = ''8.8.8.8'', Comment = ''dns'', Gateway = ''10.0.0.1'', Interface = [],
            Auto = True, Reject = False\<rparr>] \<and>
   ResolveDomainsWithResolver (Some \<lparr>Routes =
      [\<lparr>g_Comment = ''dns'', g_Gateway = ''10.0.0.1'', g_Interface = [], g_Auto = True,
        g_Reject = False, g_Hosts = [''8.8.8.8''], g_Domains = [''1.1.1.1'']\<rparr>,
       \<lparr>g_Comment = ''idle'', g_Gateway = ''10.0.0.1'', g_Interface = ''Wireguard0'',
        g_Auto = False, g_Reject = False, g_Hosts = [], g_Domains = []\<rparr>]\<rparr>)
      (\<lambda>d. Inl ''no such host'') =
     (\<lparr>Groups = 1, DomainsCount = 1, IPsAdded = 1\<rparr>, None,
      Some \<lparr>Routes =
        [\<lparr>g_Comment = ''dns'', g_Gateway = ''10.0.0.1'', g_Interface = [], g_Auto = True,
          g_Reject = False, g_Hosts = [''8.8.8.8'', ''1.1.1.1''], g_Domains = [''1.1.1.1'']\<rparr>,
         \<lparr>g_Comment = ''idle'', g_Gateway = ''10.0.0.1'', g_Interface = ''Wireguard0'',
          g_Auto = False, g_Reject = False, g_Hosts = [], g_Domains = []\<rparr>]\<rparr>)"
proof -
  let ?dns = "\<lparr>g_Comment = ''dns'', g_Gateway = ''10.0.0.1'', g_Interface = [], g_Auto = True,
        g_Reject = False, g_Hosts = [''8.8.8.8''], g_Domains = [''1.1.1.1'']\<rparr>"
  let ?dns' = "\<lparr>g_Comment = ''dns'', g_Gateway = ''10.0.0.1'', g_Interface = [], g_Auto = True,
        g_Reject = False, g_Hosts = [''8.8.8.8'', ''1.1.1.1''], g_Domains = [''1.1.1.1'']\<rparr>"
  let ?vpn = "\<lparr>g_Comment = ''vpn'', g_Gateway = ''10.0.0.1'', g_Interface = ''Wireguard0'',
       g_Auto = False, g_Reject = False, g_Hosts = [''9.9.9.9''], g_Domains = [''example.com'']\<rparr>"
  let ?idle = "\<lparr>g_Comment = ''idle'', g_Gateway = ''10.0.0.1'', g_Interface = ''Wireguard0'',
        g_Auto = False, g_Reject = False, g_Hosts = [], g_Domains = []\<rparr>"
  let ?res = "\<lambda>d::string. Inl ''no such host'' :: string + nat list list"
  let ?out = "[\<lparr>Host = ''8.8.8.8'', Comment = ''dns'', Gateway = ''10.0.0.1'', Interface = [],
           Auto = True, Reject = False\<rparr>]"
  let ?s = "\<lparr>Groups = 1, DomainsCount = 1, IPsAdded = 1\<rparr>"
  have before_flat: "flatten_groups [?dns] [] = Inr ?out"
    by (simp add: normalizeHost_samples)
  have before_res: "resolve_groups ?res 0 [?dns] \<lparr>Groups = 0, DomainsCount = 0, IPsAdded = 0\<rparr> =
      (?s, None, [?dns'])"
    by (simp add: lookupIPv4_def go_eval)
  have alone: "FlattenToEntries (Some \<lparr>Routes = [?dns] @ []\<rparr>) = Inr ?out"
    by (simp add: FlattenToEntries_def normalizeHost_samples)
  from exactly_one_violation [of ?vpn "[?dns]" ?out "[]" ?res ?s "[?dns']"]
    before_flat before_res
  have violation: "FlattenToEntries (Some \<lparr>Routes = [?dns] @ ?vpn # []\<rparr>) = Inl (ExactlyOne ''vpn'')"
    "ResolveDomainsWithResolver (Some \<lparr>Routes = [?dns] @ ?vpn # []\<rparr>) ?res =
      (?s, Some (ResolveExactlyOne (Quoted ''vpn'')), Some \<lparr>Routes = [?dns'] @ ?vpn # []\<rparr>)"
    by simp_all
  from exactly_one_violation [of ?idle "[?dns]" ?out "[]" ?res ?s "[?dns']"]
    before_res alone
  have skipped: "FlattenToEntries (Some \<lparr>Routes = [?dns] @ ?idle # []\<rparr>) = Inr ?out"
    "ResolveDomainsWithResolver (Some \<lparr>Routes = [?dns] @ ?idle # []\<rparr>) ?res =
      (?s, None, Some \<lparr>Routes = [?dns'] @ ?idle # []\<rparr>)"
    by simp_all
  from violation skipped show ?thesis by simp
qed

text \<open>
  Where C5 fails as stated: a group that sets both and has no hosts flattens without error;
  for a group without a comment the error of \<^verbatim>\<open>FlattenToEntries\<close> carries the empty
  comment and no position; a group that sets both and has no domains resolves without error.
\<close>

theorem exactly_one_violation_counterexample:
  "FlattenToEntries (Some \<lparr>Routes =
      [\<lparr>g_Comment = ''vpn'', g_Gateway = ''10.0.0.1'', g_Interface = ''Wireguard0'',
        g_Auto = False, g_Reject = False, g_Hosts = [], g_Domains = []\<rparr>]\<rparr>) = Inr [] \<and>
   FlattenToEntries (Some \<lparr>Routes =
      [\<lparr>g_Comment = [], g_Gateway = [], g_Interface = [],
        g_Auto = False, g_Reject = False, g_Hosts = [''8.8.8.8''], g_Domains = []\<rparr>]\<rparr>) =
     Inl (ExactlyOne []) \<and>
   ResolveDomainsWithResolver (Some \<lparr>Routes =
      [\<lparr>g_Comment = ''vpn'', g_Gateway = ''10.0.0.1'', g_Interface = ''Wireguard0'',
        g_Auto = False, g_Reject = False, g_Hosts = [''8.8.8.8''], g_Domains = []\<rparr>]\<rparr>)
      (\<lambda>d. Inl ''no such host'') =
     (\<lparr>Groups = 0, DomainsCount = 0, IPsAdded = 0\<rparr>, None,
      Some \<lparr>Routes =
        [\<lparr>g_Comment = ''vpn'', g_Gateway = ''10.0.0.1'', g_Interface = ''Wireguard0'',
          g_Auto = False, g_Reject = False, g_Hosts = [''8.8.8.8''], g_Domains = []\<rparr>]\<rparr>)"
  by (simp add: FlattenToEntries_def ResolveDomainsWithResolver_def)

section \<open>Grouping and flattening\<close>

lemma ToYAML_collect_same_key:
  assumes "\<forall>r\<in>set rs. route_key r = k \<and> Host r \<noteq> [] \<and> isIPv4OrCIDR (Host r)" and "rs \<noteq> []"
  shows "ToYAML_collect rs (m, ord) =
    (m(k \<mapsto> (case m k of None \<Rightarrow> [] | Some hs \<Rightarrow> hs) @ map Host rs),
     if m k = None then ord @ [k] else ord)"
  using assms
proof (induction rs arbitrary: m ord)
  case Nil
  then show ?case by simp
next
  case (Cons r rs)
  from Cons.prems have r: "route_key r = k" "Host r \<noteq> []" "isIPv4OrCIDR (Host r)"
    and rest: "\<forall>r\<in>set rs. route_key r = k \<and> Host r \<noteq> [] \<and> isIPv4OrCIDR (Host r)"
    by simp_all
  define hs0 where "hs0 = (case m k of None \<Rightarrow> [] | Some hs \<Rightarrow> hs)"
  define ord' where "ord' = (if m k = None then ord @ [k] else ord)"
  have step: "ToYAML_collect (r # rs) (m, ord) = ToYAML_collect rs (m(k \<mapsto> hs0 @ [Host r]), ord')"
    using r by (simp add: hs0_def ord'_def)
  show ?case
  proof (cases "rs = []")
    case True
    with r show ?thesis by (auto simp: fun_upd_def)
  next
    case False
    have "ToYAML_collect rs (m(k \<mapsto> hs0 @ [Host r]), ord') =
        ((m(k \<mapsto> hs0 @ [Host r]))(k \<mapsto>
            (case (m(k \<mapsto> hs0 @ [Host r])) k of None \<Rightarrow> [] | Some hs \<Rightarrow> hs) @ map Host rs),
         if (m(k \<mapsto> hs0 @ [Host r])) k = None then ord' @ [k] else ord')"
      by (rule Cons.IH [OF rest False])
    then have "ToYAML_collect rs (m(k \<mapsto> hs0 @ [Host r]), ord') =
        (m(k \<mapsto> hs0 @ Host r # map Host rs), ord')"
      by simp
    with step have "ToYAML_collect (r # rs) (m, ord) = (m(k \<mapsto> hs0 @ Host r # map Host rs), ord')"
      by (rule trans)
    then show ?thesis by (auto simp: hs0_def ord'_def fun_upd_def)
  qed
qed

lemma flatten_hosts_normal:
  "\<forall>h\<in>set hs. normalizeHost h = Inr h \<Longrightarrow>
   flatten_hosts g hs out =
     Inr (out @ map (\<lambda>h. \<lparr>Host = h, Comment = g_Comment g, Gateway = g_Gateway g,
                          Interface = g_Interface g, Auto = g_Auto g, Reject = g_Reject g\<rparr>) hs)"
  by (induction hs arbitrary: out) simp_all

text \<open>
  C6 (as amended): for a list of at least one route, all with the same comment, gateway,
  interface, auto and reject, exactly one of gateway and interface set, and every destination
  non-empty, valid for \<^verbatim>\<open>isIPv4OrCIDR\<close> and in the form \<^verbatim>\<open>normalizeHost\<close> gives it,
  \<^verbatim>\<open>ToYAML\<close> makes exactly one group, holding the hosts in the order of the list, and
  \<^verbatim>\<open>FlattenToEntries\<close> of that file gives the list back.
\<close>

theorem group_then_flatten_roundtrip:
  assumes ne: "rs \<noteq> []"
    and attrs: "\<forall>r\<in>set rs. Comment r = c \<and> Gateway r = gw \<and> Interface r = ifc \<and>
                   Auto r = a \<and> Reject r = rj"
    and one: "(gw \<noteq> []) \<noteq> (ifc \<noteq> [])"
    and valid: "\<forall>r\<in>set rs. Host r \<noteq> [] \<and> isIPv4OrCIDR (Host r)"
    and normal: "\<forall>r\<in>set rs. normalizeHost (Host r) = Inr (Host r)"
  shows "ToYAML rs =
           \<lparr>Routes = [\<lparr>g_Comment = c, g_Gateway = gw, g_Interface = ifc, g_Auto = a,
                        g_Reject = rj, g_Hosts = map Host rs, g_Domains = []\<rparr>]\<rparr> \<and>
         FlattenToEntries (Some (ToYAML rs)) = Inr rs"
proof -
  define k where "k = \<lparr>key_comment = c, key_gateway = gw, key_iface = ifc, key_auto = a, key_reject = rj\<rparr>"
  have keys: "\<forall>r\<in>set rs. route_key r = k \<and> Host r \<noteq> [] \<and> isIPv4OrCIDR (Host r)"
    using attrs valid by (simp add: route_key_def k_def)
  have grp: "ToYAML rs =
           \<lparr>Routes = [\<lparr>g_Comment = c, g_Gateway = gw, g_Interface = ifc, g_Auto = a,
                        g_Reject = rj, g_Hosts = map Host rs, g_Domains = []\<rparr>]\<rparr>"
    by (simp add: ToYAML_def ToYAML_collect_same_key [OF keys ne] k_def)
  have hosts: "map Host rs \<noteq> []" using ne by simp
  have nf: "\<forall>h\<in>set (map Host rs). normalizeHost h = Inr h" using normal by simp
  have same: "map (\<lambda>r. \<lparr>Host = Host r, Comment = c, Gateway = gw, Interface = ifc, Auto = a,
                         Reject = rj\<rparr>) rs = rs"
  proof (rule map_idI)
    fix r assume "r \<in> set rs"
    with attrs show "\<lparr>Host = Host r, Comment = c, Gateway = gw, Interface = ifc, Auto = a,
                        Reject = rj\<rparr> = r"
      by auto
  qed
  have "FlattenToEntries (Some (ToYAML rs)) = Inr rs"
    using one hosts by (simp add: grp FlattenToEntries_def flatten_hosts_normal [OF nf] comp_def same)
  with grp show ?thesis by simp
qed


theorem group_then_flatten_roundtrip_witness:
  "ToYAML
     [\<lparr>Host = ''8.8.8.8'', Comment = ''test'', Gateway = ''10.0.0.1'', Interface = [],
       Auto = True, Reject = False\<rparr>,
      \<lparr>Host = ''192.168.0.0/24'', Comment = ''test'', Gateway = ''10.0.0.1'', Interface = [],
       Auto = True, Reject = False\<rparr>] =
     \<lparr>Routes = [\<lparr>g_Comment = ''test'', g_Gateway = ''10.0.0.1'', g_Interface = [], g_Auto = True,
                  g_Reject = False, g_Hosts = [''8.8.8.8'', ''192.168.0.0/24''], g_Domains = []\<rparr>]\<rparr> \<and>
   FlattenToEntries (Some (ToYAML
     [\<lparr>Host = ''8.8.8.8'', Comment = ''test'', Gateway = ''10.0.0.1'', Interface = [],
       Auto = True, Reject = False\<rparr>,
      \<lparr>Host = ''192.168.0.0/24'', Comment = ''test'', Gateway = ''10.0.0.1'', Interface = [],
       Auto = True, Reject = False\<rparr>])) =
     Inr [\<lparr>Host = ''8.8.8.8'', Comment = ''test'', Gateway = ''10.0.0.1'', Interface = [],
            Auto = True, Reject = False\<rparr>,
          \<lparr>Host = ''192.168.0.0/24'', Comment = ''test'', Gateway = ''10.0.0.1'', Interface = [],
            Auto = True, Reject = False\<rparr>]"
  using group_then_flatten_roundtrip
    [of "[\<lparr>Host = ''8.8.8.8'', Comment = ''test'', Gateway = ''10.0.0.1'', Interface = [],
            Auto = True, Reject = False\<rparr>,
          \<lparr>Host = ''192.168.0.0/24'', Comment = ''test'', Gateway = ''10.0.0.1'', Interface = [],
            Auto = True, Reject = False\<rparr>]" "''test''" "''10.0.0.1''" "[]" True False]
  by (auto simp: isIPv4OrCIDR_samples normalizeHost_samples)

text \<open>
  Where C6 fails as stated: the empty list gives no group, and a valid destination that is
  not in network form comes back changed.
\<close>

theorem group_then_flatten_counterexample:
  "ToYAML [] = \<lparr>Routes = []\<rparr> \<and>
   isIPv4OrCIDR ''10.1.2.3/8'' \<and>
   FlattenToEntries (Some (ToYAML
     [\<lparr>Host = ''10.1.2.3/8'', Comment = ''lan'', Gateway = ''10.0.0.1'', Interface = [],
       Auto = True, Reject = False\<rparr>])) =
     Inr [\<lparr>Host = ''10.0.0.0/8'', Comment = ''lan'', Gateway = ''10.0.0.1'', Interface = [],
            Auto = True, Reject = False\<rparr>]"
  by (simp add: ToYAML_def route_key_def FlattenToEntries_def isIPv4OrCIDR_samples normalizeHost_samples)

section \<open>The session client\<close>

lemma hexdigit_lower: "d < 16 \<Longrightarrow> hexdigit d \<in> set ''0123456789abcdef''"
  unfolding hexdigit_def by (rule nth_mem) simp

lemma hex_EncodeToString_lower: "set (hex_EncodeToString bs) \<subseteq> set ''0123456789abcdef''"
proof -
  have "\<And>b. hexdigit (b div 16 mod 16) \<in> set ''0123456789abcdef'' \<and>
            hexdigit (b mod 16) \<in> set ''0123456789abcdef''"
    by (intro conjI hexdigit_lower) simp_all
  then show ?thesis unfolding hex_EncodeToString_def by (induction bs) auto
qed

text \<open>
  C1 (as amended): let the client be unauthenticated and the probe be answered with 401.
  If the realm and the challenge of the answer are both non-empty, then for every login and
  password \<^verbatim>\<open>auth\<close> sends, right after the probe, one POST whose JSON body has the login
  as its \<^verbatim>\<open>login\<close> field and, as its \<^verbatim>\<open>password\<close> field, the hexadecimal SHA-256
  digest of the challenge followed by the hexadecimal MD5 digest of
  \<^verbatim>\<open>login:realm:password\<close>; both digests are written with the digits 0-9 and a-f; and
  when that POST is answered with 200 the call returns no error and leaves the client
  authenticated.  If the realm or the challenge is empty, \<^verbatim>\<open>auth\<close> fails with the error for
  the missing headers, sends nothing after the probe and leaves the client as it was.
\<close>

theorem auth_handshake:
  assumes unauth: "\<not> authed c"
    and probe: "http_Get E sent (baseURL c @ ''/auth'') = (Inr getResp, sent1)"
    and status: "StatusCode getResp = 401"
    and realm: "Header_Get getResp ''X-NDM-Realm'' = realm"
    and challenge: "Header_Get getResp ''X-NDM-Challenge'' = challenge"
    and digestA: "digestA = hex_EncodeToString (md5_Sum E (login c @ '':'' @ realm @ '':'' @ password c))"
    and digestB: "digestB = hex_EncodeToString (sha256_Sum256 E (challenge @ digestA))"
  shows "(realm \<noteq> [] \<and> challenge \<noteq> [] \<longrightarrow>
           (\<exists>err c'. auth E c sent = (err, c', sent1 @ [auth_post c digestB]) \<and>
              (\<forall>postResp. roundTrip E sent1 (auth_post c digestB) = Inr postResp \<and>
                  StatusCode postResp = 200 \<longrightarrow> err = None \<and> c' = c\<lparr>authed := True\<rparr>))) \<and>
         (realm = [] \<or> challenge = [] \<longrightarrow>
           auth E c sent = (Some AuthMissingHeaders, c, sent1)) \<and>
         req_method (auth_post c digestB) = POST \<and>
         req_body (auth_post c digestB) =
           Some (JObject [(''login'', JString (login c)), (''password'', JString digestB)]) \<and>
         set digestA \<subseteq> set ''0123456789abcdef'' \<and>
         set digestB \<subseteq> set ''0123456789abcdef''"
proof -
  from probe have nr: "NewRequest_err E (baseURL c @ ''/auth'') = None"
    by (auto simp: http_Get_def split: option.splits)
  have sends: "realm \<noteq> [] \<and> challenge \<noteq> [] \<longrightarrow>
           (\<exists>err c'. auth E c sent = (err, c', sent1 @ [auth_post c digestB]) \<and>
              (\<forall>postResp. roundTrip E sent1 (auth_post c digestB) = Inr postResp \<and>
                  StatusCode postResp = 200 \<longrightarrow> err = None \<and> c' = c\<lparr>authed := True\<rparr>))"
    using unauth probe status realm challenge nr
    by (auto simp: auth_def http_Do_def digestA digestB split: sum.splits)
  have guard: "realm = [] \<or> challenge = [] \<longrightarrow>
           auth E c sent = (Some AuthMissingHeaders, c, sent1)"
    using unauth probe status realm challenge
    by (auto simp: auth_def)
  have post: "req_method (auth_post c digestB) = POST"
    and body: "req_body (auth_post c digestB) =
           Some (JObject [(''login'', JString (login c)), (''password'', JString digestB)])"
    by (simp_all add: auth_post_def)
  have hex: "set digestA \<subseteq> set ''0123456789abcdef''" "set digestB \<subseteq> set ''0123456789abcdef''"
    unfolding digestA digestB by (rule hex_EncodeToString_lower)+
  from sends guard post body hex show ?thesis by blast
qed

text \<open>The digests of the scenario, and the witness: the scenario of the specification.\<close>

lemma test_digests:
  "hex_EncodeToString (md5_Sum test_router ''user:realm:pass'') = ''8493fbc53ba582fb4c044c456bdc40eb''"
  "hex_EncodeToString (sha256_Sum256 test_router ''challenge8493fbc53ba582fb4c044c456bdc40eb'') =
     ''41e6b43f253367306c008b3f863d9c29f7e33a3d7d8a72e54c251bb6b70bf104''"
  by (simp_all add: test_router_def hex_EncodeToString_def hexdigit_def)

theorem auth_handshake_witness:
  "auth test_router test_client [] =
     (None, test_client\<lparr>authed := True\<rparr>,
      [auth_probe test_client,
       auth_post test_client ''41e6b43f253367306c008b3f863d9c29f7e33a3d7d8a72e54c251bb6b70bf104'']) \<and>
   req_body (auth_post test_client
       ''41e6b43f253367306c008b3f863d9c29f7e33a3d7d8a72e54c251bb6b70bf104'') =
     Some (JObject [(''login'', JString ''user''),
       (''password'', JString ''41e6b43f253367306c008b3f863d9c29f7e33a3d7d8a72e54c251bb6b70bf104'')]) \<and>
   auth no_challenge_router test_client [] =
     (Some AuthMissingHeaders, test_client, [auth_probe test_client])"
proof -
  let ?digestA = "''8493fbc53ba582fb4c044c456bdc40eb''"
  let ?digestB = "''41e6b43f253367306c008b3f863d9c29f7e33a3d7d8a72e54c251bb6b70bf104''"
  have unauth: "\<not> authed test_client"
    by (simp add: test_client_def)
  have probe: "http_Get test_router [] (baseURL test_client @ ''/auth'') =
      (Inr challenge_response, [] @ [auth_probe test_client])"
    by (simp add: http_Get_def http_Do_def test_router_def auth_probe_def)
  have status: "StatusCode challenge_response = 401"
    by (simp add: challenge_response_def)
  have realm: "Header_Get challenge_response ''X-NDM-Realm'' = ''realm''"
    by (simp add: Header_Get_def challenge_response_def)
  have challenge: "Header_Get challenge_response ''X-NDM-Challenge'' = ''challenge''"
    by (simp add: Header_Get_def challenge_response_def)
  have dA: "?digestA =
      hex_EncodeToString (md5_Sum test_router (login test_client @ '':'' @ ''realm'' @ '':'' @ password test_client))"
    by (simp add: test_client_def test_digests)
  have dB: "?digestB = hex_EncodeToString (sha256_Sum256 test_router (''challenge'' @ ?digestA))"
    by (simp add: test_digests)
  have answer: "roundTrip test_router ([] @ [auth_probe test_client]) (auth_post test_client ?digestB) =
      Inr ok_response" "StatusCode ok_response = 200"
    by (simp_all add: test_router_def ok_response_def)
  from auth_handshake [OF unauth probe status realm challenge dA dB] answer
  have scenario: "auth test_router test_client [] =
     (None, test_client\<lparr>authed := True\<rparr>, [] @ [auth_probe test_client] @ [auth_post test_client ?digestB])"
    by auto
  let ?resp = "challenge_response\<lparr>Header := [''X-NDM-Realm'' \<mapsto> ''realm'']\<rparr>"
  have probe': "http_Get no_challenge_router [] (baseURL test_client @ ''/auth'') =
      (Inr ?resp, [auth_probe test_client])"
    by (simp add: http_Get_def http_Do_def no_challenge_router_def test_router_def auth_probe_def)
  have status': "StatusCode ?resp = 401"
    by (simp add: challenge_response_def)
  have realm': "Header_Get ?resp ''X-NDM-Realm'' = ''realm''"
    and challenge': "Header_Get ?resp ''X-NDM-Challenge'' = []"
    by (simp_all add: Header_Get_def)
  from auth_handshake [OF unauth probe' status' realm' challenge' refl refl]
  have guard: "auth no_challenge_router test_client [] =
     (Some AuthMissingHeaders, test_client, [auth_probe test_client])"
    by simp
  from scenario guard show ?thesis by (simp add: auth_post_def test_client_def)
qed

text \<open>
  Where C1 fails as stated: when the realm of the 401 answer is the empty string, no POST is
  sent and the client stays unauthenticated.
\<close>

theorem auth_handshake_counterexample:
  "auth no_realm_router test_client [] =
     (Some AuthMissingHeaders, test_client, [auth_probe test_client])"
  by (simp add: auth_def http_Get_def http_Do_def auth_probe_def Header_Get_def
      challenge_response_def test_client_def test_router_def no_realm_router_def)

section \<open>Deleting all routes\<close>

lemma authed_update_True: "authed c \<Longrightarrow> c\<lparr>authed := True\<rparr> = c"
  by (cases c) simp

lemma auth_success:
  "auth E c sent = (None, c', sent') \<Longrightarrow> c' = c\<lparr>authed := True\<rparr>"
  by (auto simp: auth_def authed_update_True split: if_splits prod.splits sum.splits option.splits)

lemma Request_success:
  assumes "Request E query body c sent = (Inr data, c', sent')"
  shows "c' = c\<lparr>authed := True\<rparr>"
proof -
  from assms obtain c1 sent1 where a: "auth E c sent = (None, c1, sent1)"
    by (auto simp: Request_def split: prod.splits option.splits)
  then have c1: "c1 = c\<lparr>authed := True\<rparr>" by (rule auth_success)
  show ?thesis
  proof (cases "c' = c1")
    case True
    with c1 show ?thesis by simp
  next
    case False
    with assms a obtain sent2 sent3 where "auth E (c1\<lparr>authed := False\<rparr>) sent2 = (None, c', sent3)"
      by (auto simp: Request_def split: prod.splits option.splits sum.splits if_splits)
    then have "c' = c1\<lparr>authed := False\<rparr>\<lparr>authed := True\<rparr>" by (rule auth_success)
    with c1 show ?thesis by simp
  qed
qed

lemma Request_authed_accepted:
  assumes "authed c"
    and "JoinPath E (baseURL c) query = Inr u"
    and "NewRequest_err E u = None"
    and "roundTrip E sent (post_payload u payload) = Inr resp"
    and "StatusCode resp = 200"
    and "Body resp = Inr data"
  shows "Request E query (Some (marshal_payload payload)) c sent =
           (Inr data, c, sent @ [post_payload u payload])"
  using assms by (simp add: Request_def auth_def doRequest_def http_Do_def post_payload_def)

lemma marshal_Route_no:
  "\<exists>fs. marshal_Route (r\<lparr>k_No := Some True\<rparr>) = JObject (fs @ [(''no'', JBool True)])"
  by (simp add: marshal_Route_def omitempty_def)

text \<open>
  C7: when the fetch of \<^verbatim>\<open>DeleteAllRoutes\<close> has given the records \<open>rs\<close> and the router
  accepts the request that follows, the operation sends exactly one more request: a POST whose
  JSON array holds one route envelope for each fetched record, in order, each with the field
  \<^verbatim>\<open>no\<close> set to true as the last field of its route, and the persist directive as the
  final element.  For an empty route set the array holds the persist directive alone.
\<close>

theorem DeleteAllRoutes_single_request:
  assumes fetch: "GetRoutes E c sent = (Inr rs, c1, sent1)"
    and url: "JoinPath E (baseURL c) ''rci/'' = Inr u" "NewRequest_err E u = None"
    and accepted:
      "roundTrip E sent1
         (post_payload u (map (\<lambda>r. routeEnvelope (r\<lparr>k_No := Some True\<rparr>)) rs @ [saveConfigPayload])) =
       Inr resp"
      "StatusCode resp = 200" "Body resp = Inr data"
  shows "DeleteAllRoutes E c sent =
           (None, c1,
            sent1 @ [post_payload u (map (\<lambda>r. routeEnvelope (r\<lparr>k_No := Some True\<rparr>)) rs @
                                      [saveConfigPayload])]) \<and>
         req_body (post_payload u (map (\<lambda>r. routeEnvelope (r\<lparr>k_No := Some True\<rparr>)) rs @
                                    [saveConfigPayload])) =
           Some (JArray
             (map (\<lambda>r. JObject [(''ip'', JObject [(''route'', marshal_Route (r\<lparr>k_No := Some True\<rparr>))])]) rs @
              [JObject [(''system'', JObject [(''configuration'', JObject [(''save'', JBool True)])])]])) \<and>
         (\<forall>r. \<exists>fs. marshal_Route (r\<lparr>k_No := Some True\<rparr>) = JObject (fs @ [(''no'', JBool True)])) \<and>
         (rs = [] \<longrightarrow>
            req_body (post_payload u (map (\<lambda>r. routeEnvelope (r\<lparr>k_No := Some True\<rparr>)) rs @
                                       [saveConfigPayload])) =
              Some (JArray
                [JObject [(''system'', JObject [(''configuration'', JObject [(''save'', JBool True)])])]]))"
proof -
  let ?payload = "map (\<lambda>r. routeEnvelope (r\<lparr>k_No := Some True\<rparr>)) rs @ [saveConfigPayload]"
  from fetch obtain d where req: "Request E ''rci/ip/route'' None c sent = (Inr d, c1, sent1)"
    by (auto simp: GetRoutes_def split: prod.splits sum.splits)
  then have c1: "c1 = c\<lparr>authed := True\<rparr>" by (rule Request_success)
  then have "authed c1" "baseURL c1 = baseURL c" by simp_all
  with url accepted have "Request E ''rci/'' (Some (marshal_payload ?payload)) c1 sent1 =
      (Inr data, c1, sent1 @ [post_payload u ?payload])"
    by (intro Request_authed_accepted) simp_all
  with fetch have run: "DeleteAllRoutes E c sent = (None, c1, sent1 @ [post_payload u ?payload])"
    by (simp add: DeleteAllRoutes_def)
  have body: "req_body (post_payload u ?payload) =
      Some (JArray
        (map (\<lambda>r. JObject [(''ip'', JObject [(''route'', marshal_Route (r\<lparr>k_No := Some True\<rparr>))])]) rs @
         [JObject [(''system'', JObject [(''configuration'', JObject [(''save'', JBool True)])])]]))"
    by (simp add: post_payload_def marshal_payload_def routeEnvelope_def saveConfigPayload_def comp_def)
  have empty: "rs = [] \<longrightarrow>
      req_body (post_payload u ?payload) =
        Some (JArray
          [JObject [(''system'', JObject [(''configuration'', JObject [(''save'', JBool True)])])]])"
    by (simp add: post_payload_def marshal_payload_def saveConfigPayload_def)
  from run body marshal_Route_no empty show ?thesis by blast
qed

text \<open>The witness: the router of the scenario, which has no routes.\<close>

lemma test_router_fields:
  "roundTrip test_router [] req = Inr challenge_response"
  "sent \<noteq> [] \<Longrightarrow> roundTrip test_router sent req = Inr ok_response"
  "NewRequest_err test_router url = None"
  "JoinPath test_router base elem = Inr (base @ ''/'' @ elem)"
  "Unmarshal_routes test_router data = Inr []"
  by (simp_all add: test_router_def)

lemma test_router_login:
  "auth test_router test_client [] =
     (None, test_client\<lparr>authed := True\<rparr>,
      [auth_probe test_client,
       auth_post test_client ''41e6b43f253367306c008b3f863d9c29f7e33a3d7d8a72e54c251bb6b70bf104''])"
proof -
  have "login test_client @ '':'' @ ''realm'' @ '':'' @ password test_client = ''user:realm:pass''"
    by (simp add: test_client_def)
  then have "hex_EncodeToString (sha256_Sum256 test_router (''challenge'' @
      hex_EncodeToString (md5_Sum test_router
        (login test_client @ '':'' @ ''realm'' @ '':'' @ password test_client)))) =
      ''41e6b43f253367306c008b3f863d9c29f7e33a3d7d8a72e54c251bb6b70bf104''"
    by (simp add: test_digests)
  moreover have "\<not> authed test_client" by (simp add: test_client_def)
  moreover have "Header_Get challenge_response ''X-NDM-Realm'' = ''realm''"
    "Header_Get challenge_response ''X-NDM-Challenge'' = ''challenge''"
    "StatusCode challenge_response = 401" "StatusCode ok_response = 200"
    by (simp_all add: Header_Get_def challenge_response_def ok_response_def)
  ultimately show ?thesis
    by (simp add: auth_def http_Get_def http_Do_def auth_probe_def test_router_fields)
qed

theorem DeleteAllRoutes_single_request_witness:
  "DeleteAllRoutes test_router test_client [] =
     (None, test_client\<lparr>authed := True\<rparr>,
      [auth_probe test_client,
       auth_post test_client ''41e6b43f253367306c008b3f863d9c29f7e33a3d7d8a72e54c251bb6b70bf104'',
       \<lparr>req_method = GET, req_url = ''http://192.168.1.1/rci/ip/route'', req_content_type = None,
        req_body = None\<rparr>,
       post_payload ''http://192.168.1.1/rci/'' [saveConfigPayload]]) \<and>
   req_body (post_payload ''http://192.168.1.1/rci/'' [saveConfigPayload]) =
     Some (JArray [JObject [(''system'', JObject [(''configuration'', JObject [(''save'', JBool True)])])]])"
proof -
  let ?sent1 = "[auth_probe test_client,
       auth_post test_client ''41e6b43f253367306c008b3f863d9c29f7e33a3d7d8a72e54c251bb6b70bf104'',
       \<lparr>req_method = GET, req_url = ''http://192.168.1.1/rci/ip/route'', req_content_type = None,
        req_body = None\<rparr>]"
  have base: "baseURL test_client = ''http://192.168.1.1''"
    by (simp add: test_client_def)
  have ok: "StatusCode ok_response = 200" "Body ok_response = Inr ''[]''"
    by (simp_all add: ok_response_def)
  have fetch: "GetRoutes test_router test_client [] = (Inr [], test_client\<lparr>authed := True\<rparr>, ?sent1)"
    by (simp add: GetRoutes_def Request_def test_router_login doRequest_def http_Do_def
        test_router_fields base ok)
  have url: "JoinPath test_router (baseURL test_client) ''rci/'' = Inr ''http://192.168.1.1/rci/''"
    "NewRequest_err test_router ''http://192.168.1.1/rci/'' = None"
    by (simp_all add: test_router_fields base)
  have accepted: "roundTrip test_router ?sent1
      (post_payload ''http://192.168.1.1/rci/''
         (map (\<lambda>r. routeEnvelope (r\<lparr>k_No := Some True\<rparr>)) [] @ [saveConfigPayload])) = Inr ok_response"
    by (simp add: test_router_fields)
  from DeleteAllRoutes_single_request [OF fetch url accepted ok] show ?thesis by simp
qed

section \<open>Adding routes in batches\<close>

lemma buildRoute_valid:
  "isIPv4OrCIDR (Host e) \<Longrightarrow> \<exists>r. buildRoute e = Inr r"
  by (auto simp: buildRoute_def isIPv4OrCIDR_def split: option.splits if_splits)

lemma build_payload_valid:
  "\<forall>e\<in>set es. isIPv4OrCIDR (Host e) \<Longrightarrow>
   build_payload es p = Inr (p @ map (\<lambda>e. routeEnvelope (projr (buildRoute e))) es)"
proof (induction es arbitrary: p)
  case Nil
  then show ?case by simp
next
  case (Cons e es)
  from Cons.prems obtain r where r: "buildRoute e = Inr r"
    using buildRoute_valid [of e] by auto
  with Cons show ?case by simp
qed

lemma Request_after_login:
  assumes login: "auth E c sent = (None, c1, sent1)"
  shows "Request E query body c sent = Request E query body c1 sent1"
proof -
  from login have "c1 = c\<lparr>authed := True\<rparr>" by (rule auth_success)
  then have "authed c1" by simp
  then have "auth E c1 sent1 = (None, c1, sent1)" by (simp add: auth_def)
  with login show ?thesis by (simp add: Request_def)
qed

lemma AddRoutes_loop_after_login:
  assumes login: "auth E c sent = (None, c1, sent1)"
    and more: "i < length entries"
    and valid: "\<forall>e\<in>set entries. isIPv4OrCIDR (Host e)"
  shows "AddRoutes_loop E entries i c sent = AddRoutes_loop E entries i c1 sent1"
proof -
  have slice: "take (min (i + routeBatchSize) (length entries) - i) (drop i entries) =
      take routeBatchSize (drop i entries)"
    by (simp add: min_def)
  have "\<forall>e\<in>set (take routeBatchSize (drop i entries)). isIPv4OrCIDR (Host e)"
    using valid by (meson in_set_dropD in_set_takeD)
  then have payload: "build_payload (take routeBatchSize (drop i entries)) [] =
      Inr (map (\<lambda>e. routeEnvelope (projr (buildRoute e))) (take routeBatchSize (drop i entries)))"
    by (simp add: build_payload_valid)
  from more show ?thesis
    by (simp add: AddRoutes_loop.simps [of E entries i c sent]
        AddRoutes_loop.simps [of E entries i c1 sent1] slice payload
        Request_after_login [OF login])
qed

lemma batches_step:
  "xs \<noteq> [] \<Longrightarrow> batches routeBatchSize xs = take routeBatchSize xs # batches routeBatchSize (drop routeBatchSize xs)"
  by (subst batches.simps) (simp add: routeBatchSize_def)

lemma AddRoutes_loop_authed:
  assumes au: "authed c"
    and acc: "\<And>extra payload. \<exists>resp data.
        roundTrip E (sent1 @ extra) (post_payload u payload) = Inr resp \<and>
        StatusCode resp = 200 \<and> Body resp = Inr data"
    and nr: "NewRequest_err E u = None"
    and jp: "JoinPath E (baseURL c) ''rci/'' = Inr u"
    and valid: "\<forall>e\<in>set entries. isIPv4OrCIDR (Host e)"
  shows "AddRoutes_loop E entries i c (sent1 @ extra) =
    (None, c,
     sent1 @ extra @
     map (\<lambda>b. post_payload u (map (\<lambda>e. routeEnvelope (projr (buildRoute e))) b @ [saveConfigPayload]))
       (batches routeBatchSize (drop i entries)))"
proof (induction "length entries - i" arbitrary: i extra rule: less_induct)
  case less
  show ?case
  proof (cases "i < length entries")
    case False
    then show ?thesis
      by (subst AddRoutes_loop.simps) (simp add: batches.simps)
  next
    case True
    let ?f = "\<lambda>e. routeEnvelope (projr (buildRoute e))"
    let ?batch = "take routeBatchSize (drop i entries)"
    let ?req = "post_payload u (map ?f ?batch @ [saveConfigPayload])"
    have slice: "take (min (i + routeBatchSize) (length entries) - i) (drop i entries) = ?batch"
      by (simp add: min_def)
    have "\<forall>e\<in>set ?batch. isIPv4OrCIDR (Host e)"
      using valid by (meson in_set_dropD in_set_takeD)
    then have payload: "build_payload ?batch [] = Inr (map ?f ?batch)"
      by (simp add: build_payload_valid)
    from acc [of extra "map ?f ?batch @ [saveConfigPayload]"] obtain resp data where
      answer: "roundTrip E (sent1 @ extra) ?req = Inr resp" "StatusCode resp = 200"
        "Body resp = Inr data"
      by blast
    have req: "Request E ''rci/'' (Some (marshal_payload (map ?f ?batch @ [saveConfigPayload]))) c
        (sent1 @ extra) = (Inr data, c, (sent1 @ extra) @ [?req])"
      by (rule Request_authed_accepted [OF au jp nr answer])
    have smaller: "length entries - (i + routeBatchSize) < length entries - i"
      using True by (simp add: routeBatchSize_def)
    have rest: "AddRoutes_loop E entries (i + routeBatchSize) c (sent1 @ extra @ [?req]) =
      (None, c,
       sent1 @ (extra @ [?req]) @
       map (\<lambda>b. post_payload u (map ?f b @ [saveConfigPayload]))
         (batches routeBatchSize (drop (i + routeBatchSize) entries)))"
      using less.hyps [OF smaller, of "extra @ [?req]"] by simp
    have split: "batches routeBatchSize (drop i entries) =
        ?batch # batches routeBatchSize (drop (i + routeBatchSize) entries)"
      using True by (simp add: batches_step add.commute)
    show ?thesis
      using True
      by (subst AddRoutes_loop.simps) (simp add: slice payload req rest split)
  qed
qed

lemma batches_55:
  assumes "length xs = 55"
  shows "batches routeBatchSize xs = [take 50 xs, drop 50 xs]"
proof -
  from assms have ne: "xs \<noteq> []" "drop 50 xs \<noteq> []" by auto
  from assms have "take 50 (drop 50 xs) = drop 50 xs" "drop 50 (drop 50 xs) = []" by simp_all
  with batches_step [OF ne(1)] batches_step [of "drop 50 xs"] ne(2) show ?thesis
    by (simp add: routeBatchSize_def batches.simps [of _ "[]"])
qed

text \<open>
  C2: let the login exchange of \<^verbatim>\<open>auth\<close> succeed (it sends nothing for a client that
  is already authenticated), let the router then answer every batch request with 200, and let
  every destination be valid for \<^verbatim>\<open>isIPv4OrCIDR\<close>.  Then \<^verbatim>\<open>AddRoutes\<close> on a non-empty
  list sends, after the requests of the login exchange, one POST for each batch of 50 entries,
  in list order, and nothing else; for a list of 55 entries these are exactly two requests, the
  first with the envelopes of the first 50 entries and the persist directive (51 elements), the
  second with the envelopes of the last 5 and the persist directive (6 elements); the JSON
  array of a batch request is the envelopes followed by the persist directive as its final
  element.
\<close>

theorem AddRoutes_batches:
  assumes login: "auth E c sent = (None, c1, sent1)"
    and acc: "\<And>extra payload. \<exists>resp data.
        roundTrip E (sent1 @ extra) (post_payload u payload) = Inr resp \<and>
        StatusCode resp = 200 \<and> Body resp = Inr data"
    and nr: "NewRequest_err E u = None"
    and jp: "JoinPath E (baseURL c) ''rci/'' = Inr u"
    and valid: "\<forall>e\<in>set entries. isIPv4OrCIDR (Host e)"
  shows "(entries \<noteq> [] \<longrightarrow>
            AddRoutes E entries c sent =
              (None, c1,
               sent1 @
               map (\<lambda>b. post_payload u
                      (map (\<lambda>e. routeEnvelope (projr (buildRoute e))) b @ [saveConfigPayload]))
                 (batches routeBatchSize entries))) \<and>
         (length entries = 55 \<longrightarrow>
            AddRoutes E entries c sent =
              (None, c1,
               sent1 @
               [post_payload u
                  (map (\<lambda>e. routeEnvelope (projr (buildRoute e))) (take 50 entries) @ [saveConfigPayload]),
                post_payload u
                  (map (\<lambda>e. routeEnvelope (projr (buildRoute e))) (drop 50 entries) @ [saveConfigPayload])]) \<and>
            length (map (\<lambda>e. routeEnvelope (projr (buildRoute e))) (take 50 entries) @ [saveConfigPayload]) = 51 \<and>
            length (map (\<lambda>e. routeEnvelope (projr (buildRoute e))) (drop 50 entries) @ [saveConfigPayload]) = 6) \<and>
         (\<forall>payload. req_body (post_payload u (payload @ [saveConfigPayload])) =
            Some (JArray (map marshal_elem payload @
              [JObject [(''system'', JObject [(''configuration'', JObject [(''save'', JBool True)])])]]))) \<and>
         c1 = c\<lparr>authed := True\<rparr> \<and>
         (authed c \<longrightarrow> sent1 = sent)"
proof -
  let ?f = "\<lambda>e. routeEnvelope (projr (buildRoute e))"
  from login have c1: "c1 = c\<lparr>authed := True\<rparr>" by (rule auth_success)
  then have au: "authed c1" and jp1: "JoinPath E (baseURL c1) ''rci/'' = Inr u"
    using jp by simp_all
  have quiet: "authed c \<longrightarrow> sent1 = sent"
    using login by (auto simp: auth_def)
  have general: "entries \<noteq> [] \<longrightarrow>
      AddRoutes E entries c sent =
        (None, c1,
         sent1 @
         map (\<lambda>b. post_payload u (map ?f b @ [saveConfigPayload])) (batches routeBatchSize entries))"
  proof
    assume ne: "entries \<noteq> []"
    then have "AddRoutes_loop E entries 0 c sent = AddRoutes_loop E entries 0 c1 sent1"
      by (intro AddRoutes_loop_after_login [OF login _ valid]) simp
    also have "\<dots> = (None, c1,
         sent1 @ [] @
         map (\<lambda>b. post_payload u (map ?f b @ [saveConfigPayload]))
           (batches routeBatchSize (drop 0 entries)))"
      using AddRoutes_loop_authed [OF au acc nr jp1 valid, of 0 "[]"] by simp
    finally show "AddRoutes E entries c sent =
        (None, c1,
         sent1 @
         map (\<lambda>b. post_payload u (map ?f b @ [saveConfigPayload])) (batches routeBatchSize entries))"
      using ne by (simp add: AddRoutes_def)
  qed
  have fiftyfive: "length entries = 55 \<longrightarrow>
      AddRoutes E entries c sent =
        (None, c1,
         sent1 @
         [post_payload u (map ?f (take 50 entries) @ [saveConfigPayload]),
          post_payload u (map ?f (drop 50 entries) @ [saveConfigPayload])]) \<and>
      length (map ?f (take 50 entries) @ [saveConfigPayload]) = 51 \<and>
      length (map ?f (drop 50 entries) @ [saveConfigPayload]) = 6"
  proof
    assume n: "length entries = 55"
    then have "entries \<noteq> []" by auto
    with general n show "AddRoutes E entries c sent =
        (None, c1,
         sent1 @
         [post_payload u (map ?f (take 50 entries) @ [saveConfigPayload]),
          post_payload u (map ?f (drop 50 entries) @ [saveConfigPayload])]) \<and>
      length (map ?f (take 50 entries) @ [saveConfigPayload]) = 51 \<and>
      length (map ?f (drop 50 entries) @ [saveConfigPayload]) = 6"
      by (simp add: batches_55)
  qed
  have body: "\<forall>payload. req_body (post_payload u (payload @ [saveConfigPayload])) =
      Some (JArray (map marshal_elem payload @
        [JObject [(''system'', JObject [(''configuration'', JObject [(''save'', JBool True)])])]]))"
    by (simp add: post_payload_def marshal_payload_def saveConfigPayload_def)
  from general fiftyfive body c1 quiet show ?thesis by blast
qed

text \<open>The witness: 50 host routes followed by 5 network routes, sent to the router of the
  scenario, which challenges the client first.\<close>

lemma buildRoute_samples:
  "buildRoute \<lparr>Host = ''8.8.8.8'', Comment = ''dns'', Gateway = ''10.0.0.1'', Interface = [],
               Auto = True, Reject = False\<rparr> =
     Inr \<lparr>k_Host = Some ''8.8.8.8'', k_Network = None, k_IP = None, k_Mask = None, k_Prefix = None,
          k_PrefixLen = None, k_Comment = Some ''dns'', k_Gateway = Some ''10.0.0.1'',
          k_Interface = None, k_Auto = Some True, k_Reject = None, k_No = None\<rparr>"
  "buildRoute \<lparr>Host = ''192.168.0.0/24'', Comment = ''lan'', Gateway = [], Interface = ''Home'',
               Auto = False, Reject = True\<rparr> =
     Inr \<lparr>k_Host = None, k_Network = Some ''192.168.0.0'', k_IP = None,
          k_Mask = Some ''255.255.255.0'', k_Prefix = None, k_PrefixLen = None,
          k_Comment = Some ''lan'', k_Gateway = None, k_Interface = Some ''Home'',
          k_Auto = Some False, k_Reject = Some True, k_No = None\<rparr>"
  by (simp_all add: buildRoute_def go_eval)

theorem AddRoutes_batches_witness:
  "AddRoutes test_router
     (replicate 50 \<lparr>Host = ''8.8.8.8'', Comment = ''dns'', Gateway = ''10.0.0.1'', Interface = [],
                     Auto = True, Reject = False\<rparr> @
      replicate 5 \<lparr>Host = ''192.168.0.0/24'', Comment = ''lan'', Gateway = [], Interface = ''Home'',
                    Auto = False, Reject = True\<rparr>)
     test_client [] =
   (None, test_client\<lparr>authed := True\<rparr>,
    [auth_probe test_client,
     auth_post test_client ''41e6b43f253367306c008b3f863d9c29f7e33a3d7d8a72e54c251bb6b70bf104'',
     post_payload ''http://192.168.1.1/rci/''
       (replicate 50 (routeEnvelope
          \<lparr>k_Host = Some ''8.8.8.8'', k_Network = None, k_IP = None, k_Mask = None, k_Prefix = None,
           k_PrefixLen = None, k_Comment = Some ''dns'', k_Gateway = Some ''10.0.0.1'',
           k_Interface = None, k_Auto = Some True, k_Reject = None, k_No = None\<rparr>) @
        [saveConfigPayload]),
     post_payload ''http://192.168.1.1/rci/''
       (replicate 5 (routeEnvelope
          \<lparr>k_Host = None, k_Network = Some ''192.168.0.0'', k_IP = None,
           k_Mask = Some ''255.255.255.0'', k_Prefix = None, k_PrefixLen = None,
           k_Comment = Some ''lan'', k_Gateway = None, k_Interface = Some ''Home'',
           k_Auto = Some False, k_Reject = Some True, k_No = None\<rparr>) @
        [saveConfigPayload])])"
proof -
  let ?r1 = "\<lparr>Host = ''8.8.8.8'', Comment = ''dns'', Gateway = ''10.0.0.1'', Interface = [],
              Auto = True, Reject = False\<rparr>"
  let ?r2 = "\<lparr>Host = ''192.168.0.0/24'', Comment = ''lan'', Gateway = [], Interface = ''Home'',
              Auto = False, Reject = True\<rparr>"
  let ?sent1 = "[auth_probe test_client,
     auth_post test_client ''41e6b43f253367306c008b3f863d9c29f7e33a3d7d8a72e54c251bb6b70bf104'']"
  have acc: "\<And>extra payload. \<exists>resp data.
      roundTrip test_router (?sent1 @ extra) (post_payload ''http://192.168.1.1/rci/'' payload) = Inr resp \<and>
      StatusCode resp = 200 \<and> Body resp = Inr data"
    by (simp add: test_router_fields ok_response_def)
  have nr: "NewRequest_err test_router ''http://192.168.1.1/rci/'' = None"
    by (simp add: test_router_fields)
  have jp: "JoinPath test_router (baseURL test_client) ''rci/'' = Inr ''http://192.168.1.1/rci/''"
    by (simp add: test_router_fields test_client_def)
  have valid: "\<forall>e\<in>set (replicate 50 ?r1 @ replicate 5 ?r2). isIPv4OrCIDR (Host e)"
    by (auto simp: isIPv4OrCIDR_samples)
  from AddRoutes_batches [OF test_router_login acc nr jp valid,
      THEN conjunct2, THEN conjunct1]
  show ?thesis by (simp add: buildRoute_samples)
qed

section \<open>Decoding flexible scalars\<close>













section \<open>The destination of a route\<close>

text \<open>The 4-byte form has four bytes, and the dotted masks of the prefix lengths 0 to 32 are
  read back as they were written.\<close>

lemma To4_length: "To4 ip = Some m \<Longrightarrow> length m = 4"
  by (auto simp: To4_def split: if_splits)

lemma IPv4Mask_To4: "To4 ip = Some m \<Longrightarrow> IPv4Mask (m ! 0) (m ! 1) (m ! 2) (m ! 3) = m"
proof -
  assume "To4 ip = Some m"
  then have "length m = 4" by (rule To4_length)
  then obtain a b c d where "m = [a, b, c, d]"
    by (cases m; cases "tl m"; cases "tl (tl m)"; cases "tl (tl (tl m))") auto
  then show ?thesis by (simp add: IPv4Mask_def)
qed




lemma ParseIP_Nil: "ParseIP [] = None" "ParseIP_To4 [] = None"
  by (simp_all add: ParseIP_def ParseIP_To4_def ParseAddr_def)

lemma RouteDest_network:
  assumes "HostValue r = []" "ParseIP_To4 (dest_network r) \<noteq> None"
  shows "RouteDest r =
       (if 0 < PrefixValue r \<and> PrefixValue r \<le> 32
          then dest_network r @ ''/'' @ Itoa (PrefixValue r)
        else if 0 < PrefixLenValue r \<and> PrefixLenValue r \<le> 32
          then dest_network r @ ''/'' @ Itoa (PrefixLenValue r)
        else case ParseIP_To4 (MaskValue r) of
          Some m \<Rightarrow> dest_network r @ ''/'' @ Itoa (int (fst (IPMask_Size m)))
        | None \<Rightarrow> dest_network r)"
proof -
  from assms(2) obtain n4 where n4: "ParseIP_To4 (dest_network r) = Some n4"
    by auto
  then have ne: "dest_network r \<noteq> []"
    using ParseIP_Nil(2) by auto
  note h = assms(1)
  show ?thesis
  proof (cases "ParseIP (MaskValue r)")
    case None
    then have "ParseIP_To4 (MaskValue r) = None" by (simp add: ParseIP_To4_def)
    with None h n4 ne show ?thesis
      by (simp add: RouteDest_def)
  next
    case (Some maskIP)
    then have mk: "ParseIP_To4 (MaskValue r) = To4 maskIP" by (simp add: ParseIP_To4_def)
    from Some have m: "MaskValue r \<noteq> []" using ParseIP_Nil(1) by auto
    show ?thesis
    proof (cases "To4 maskIP")
      case None
      with Some mk h n4 ne m show ?thesis
        by (simp add: RouteDest_def)
    next
      case (Some m4)
      from IPv4Mask_To4 [OF Some] \<open>ParseIP (MaskValue r) = Some maskIP\<close> Some mk h n4 ne m
      show ?thesis
        by (simp add: RouteDest_def)
    qed
  qed
qed



text \<open>A text that \<^verbatim>\<open>net.ParseIP\<close> accepts has no slash, and \<^verbatim>\<open>RouteDest\<close> is empty exactly
  when the host, or without a host the network, is not a valid IPv4 destination.\<close>

lemma Contains_char: "strings_Contains s [c] = (c \<in> set s)"
  by (induction s) auto

lemma slash_no_digit: "digit_val (CHR ''/'') = None" "hex_val (CHR ''/'') = None"
  by (simp_all add: digit_val_def hex_val_def byte_def)

lemma parseIPv4_loop_chars:
  "parseIPv4_loop s prev val digLen fs = Some r \<Longrightarrow> CHR ''/'' \<notin> set s"
proof (induction s prev val digLen fs rule: parseIPv4_loop.induct)
  case (1 prev val digLen fs)
  then show ?case by simp
next
  case (2 c cs prev val digLen fs)
  show ?case
  proof (cases "digit_val c")
    case None
    with 2 slash_no_digit show ?thesis
      by (auto split: if_splits)
  next
    case (Some d)
    with 2 slash_no_digit show ?thesis
      by (auto split: if_splits)
  qed
qed

lemma hex_group_chars:
  "hex_group s off acc = Some (a, off') \<Longrightarrow>
     off \<le> off' \<and> off' - off \<le> length s \<and> CHR ''/'' \<notin> set (take (off' - off) s)"
proof (induction s arbitrary: off acc)
  case Nil
  then show ?case by simp
next
  case (Cons c cs)
  show ?case
  proof (cases "hex_val c")
    case None
    with Cons.prems show ?thesis by simp
  next
    case (Some d)
    with Cons.prems have rec: "hex_group cs (Suc off) (acc * 16 + d) = Some (a, off')"
      by (auto split: if_splits)
    from Cons.IH [OF rec] have ih: "Suc off \<le> off'" "off' - Suc off \<le> length cs"
      "CHR ''/'' \<notin> set (take (off' - Suc off) cs)"
      by simp_all
    from ih(1) have "off' - off = Suc (off' - Suc off)" by simp
    moreover from Some have "c \<noteq> CHR ''/''" using slash_no_digit by auto
    ultimately show ?thesis using ih by simp
  qed
qed

lemma parseIPv6_loop_chars:
  "parseIPv6_loop s ip ell = Some ([], ip', ell') \<Longrightarrow> CHR ''/'' \<notin> set s"
proof (induction s ip ell rule: parseIPv6_loop.induct)
  case (1 s ip ell)
  show ?case
  proof (cases "length ip \<ge> 16")
    case True
    with "1.prems" show ?thesis by (simp add: parseIPv6_loop.simps [of s])
  next
    case short: False
    with "1.prems" obtain acc off where g: "hex_group s 0 0 = Some (acc, off)"
      by (auto simp: parseIPv6_loop.simps [of s] split: option.splits)
    from hex_group_chars [OF g] have off: "off \<le> length s" "CHR ''/'' \<notin> set (take off s)"
      by simp_all
    have parts: "set s = set (take off s) \<union> set (drop off s)"
      by (simp only: set_append [symmetric] append_take_drop_id)
    from short g "1.prems" have off0: "off \<noteq> 0"
      by (auto simp: parseIPv6_loop.simps [of s] split: if_splits)
    show ?thesis
    proof (cases "off < length s \<and> s ! off = CHR ''.''")
      case True
      with short g off0 "1.prems" obtain b4 where "parseIPv4 s = Some b4"
        by (auto simp: parseIPv6_loop.simps [of s] split: option.splits if_splits)
      then show ?thesis
        unfolding parseIPv4_def by (rule parseIPv4_loop_chars)
    next
      case nodot: False
      show ?thesis
      proof (cases "drop off s = []")
        case True
        with parts off show ?thesis by simp
      next
        case rest: False
        with short g off0 nodot "1.prems" have colon: "hd (drop off s) = CHR '':''"
          and long: "length (drop off s) \<noteq> 1"
          by (auto simp: parseIPv6_loop.simps [of s] split: if_splits)
        from rest have lt: "off < length s" by simp
        with colon have d1: "drop off s = CHR '':'' # drop (Suc off) s"
          using Cons_nth_drop_Suc [of off s] by (simp add: hd_drop_conv_nth)
        have rest1: "drop (Suc off) s \<noteq> []"
        proof
          assume "drop (Suc off) s = []"
          with d1 have "drop off s = [CHR '':'']" by simp
          then have "length (drop off s) = length [CHR '':'']" by (rule arg_cong)
          then have "length (drop off s) = 1" by (simp del: length_drop)
          with long show False by simp
        qed
        then have lt1: "Suc off < length s" by simp
        show ?thesis
        proof (cases "hd (drop (Suc off) s) = CHR '':''")
          case True
          with lt1 have d2: "drop (Suc off) s = CHR '':'' # drop (Suc (Suc off)) s"
            using Cons_nth_drop_Suc [of "Suc off" s] by (simp add: hd_drop_conv_nth)
          have tail: "CHR ''/'' \<notin> set (drop (Suc (Suc off)) s)"
          proof (cases "drop (Suc (Suc off)) s = []")
            case True
            then show ?thesis by simp
          next
            case False
            with short g off0 nodot rest colon long True "1.prems"
            have ell: "ell = None"
              and loop: "parseIPv6_loop (drop (Suc (Suc off)) s) (ip @ [acc div 256, acc mod 256])
                   (Some (length ip + 2)) = Some ([], ip', ell')"
              by (auto simp: parseIPv6_loop.simps [of s] split: if_splits)
            from "1.IH"(1) [of "(acc, off)" acc off] short g off0 nodot rest colon long True ell
              False loop
            show ?thesis by simp
          qed
          have "set (drop off s) = insert (CHR '':'') (set (drop (Suc (Suc off)) s))"
            by (subst d1, subst d2) simp
          with parts off tail show ?thesis by simp
        next
          case False
          with short g off0 nodot rest colon long "1.prems"
          have loop: "parseIPv6_loop (drop (Suc off) s) (ip @ [acc div 256, acc mod 256]) ell =
              Some ([], ip', ell')"
            by (auto simp: parseIPv6_loop.simps [of s] split: if_splits)
          from "1.IH"(2) [of "(acc, off)" acc off] short g off0 nodot rest colon long False loop
          have tail: "CHR ''/'' \<notin> set (drop (Suc off) s)" by simp
          have "set (drop off s) = insert (CHR '':'') (set (drop (Suc off) s))"
            by (subst d1) simp
          with parts off tail show ?thesis by simp
        qed
      qed
    qed
  qed
qed

lemma parseIPv6_chars:
  assumes "parseIPv6 s = Some (b, [])"
  shows "CHR ''/'' \<notin> set s"
proof -
  let ?rest = "dropWhile (\<lambda>c. c \<noteq> CHR ''%'') s"
  let ?lead = "length s \<ge> 2 \<and> s ! 0 = CHR '':'' \<and> s ! 1 = CHR '':''"
  let ?start = "if ?lead then drop 2 s else s"
  let ?loop = "parseIPv6_loop ?start [] (if ?lead then Some 0 else None)"
  have rest: "?rest = []"
  proof (rule ccontr)
    assume "?rest \<noteq> []"
    with assms show False
      by (auto simp: parseIPv6_def Let_def split: if_splits option.splits)
  qed
  then have whole: "takeWhile (\<lambda>c. c \<noteq> CHR ''%'') s = s"
    by (simp add: takeWhile_eq_all_conv dropWhile_eq_Nil_conv)
  have eq: "parseIPv6 s =
      (if ?lead \<and> drop 2 s = [] then Some ([0, 0, 0, 0, 0, 0, 0, 0, 0, 0, 0, 0, 0, 0, 0, 0], [])
       else case ?loop of
          None \<Rightarrow> None
        | Some (s', ip, ell) \<Rightarrow>
            if s' \<noteq> [] then None
            else if length ip < 16 then
              (case ell of
                None \<Rightarrow> None
              | Some e \<Rightarrow> Some (take e ip @ replicate (16 - length ip) 0 @ drop e ip, []))
            else if ell \<noteq> None then None
            else Some (ip, []))"
    unfolding parseIPv6_def Let_def rest whole by simp
  have start: "CHR ''/'' \<notin> set ?start"
  proof (cases "?lead \<and> drop 2 s = []")
    case True
    then show ?thesis by simp
  next
    case False
    with assms eq have some: "?loop \<noteq> None"
      by (auto split: option.splits)
    then obtain s' ip ell where l: "?loop = Some (s', ip, ell)"
      by (cases ?loop) auto
    with assms eq False have "s' = []"
      by (auto split: if_splits)
    with l show ?thesis
      by (intro parseIPv6_loop_chars [of ?start "[]" _ ip ell]) simp
  qed
  show ?thesis
  proof (cases ?lead)
    case False
    with start show ?thesis by (auto split: if_splits)
  next
    case True
    then have "s = CHR '':'' # CHR '':'' # drop 2 s"
      by (cases s; cases "tl s") auto
    then have "set s = set (CHR '':'' # CHR '':'' # drop 2 s)" by (rule arg_cong)
    with start True show ?thesis by (auto split: if_splits)
  qed
qed

lemma ParseAddr_scan_chars:
  "ParseAddr_scan cs s = Some a \<Longrightarrow> Zone a = [] \<Longrightarrow> CHR ''/'' \<notin> set s"
proof (induction cs)
  case Nil
  then show ?case by simp
next
  case (Cons c cs)
  show ?case
  proof (cases "c = CHR ''.''")
    case True
    with Cons.prems obtain b where "parseIPv4 s = Some b" by auto
    then show ?thesis unfolding parseIPv4_def by (rule parseIPv4_loop_chars)
  next
    case nodot: False
    show ?thesis
    proof (cases "c = CHR '':''")
      case True
      with nodot Cons.prems obtain b where "parseIPv6 s = Some (b, [])" by auto
      then show ?thesis by (rule parseIPv6_chars)
    next
      case False
      with nodot Cons show ?thesis by (auto split: if_splits)
    qed
  qed
qed

lemma ParseIP_no_slash: "ParseIP s = Some ip \<Longrightarrow> \<not> strings_Contains s ''/''"
  by (auto simp: ParseIP_def ParseAddr_def Contains_char split: option.splits if_splits
      dest: ParseAddr_scan_chars)

lemma RouteDest_empty:
  "(RouteDest r = []) =
     (if HostValue r \<noteq> [] then \<not> isIPv4OrCIDR (HostValue r)
      else ParseIP_To4 (dest_network r) = None)"
proof (cases "HostValue r = []")
  case False
  then show ?thesis by (simp add: RouteDest_def)
next
  case True
  show ?thesis
  proof (cases "ParseIP_To4 (dest_network r)")
    case None
    with True show ?thesis by (simp add: RouteDest_def)
  next
    case (Some n4)
    then have ne: "dest_network r \<noteq> []" using ParseIP_Nil(2) by auto
    from Some have "ParseIP_To4 (dest_network r) \<noteq> None" by simp
    from RouteDest_network [OF True this] ne have "RouteDest r \<noteq> []"
      by (simp split: option.splits)
    with True Some show ?thesis by simp
  qed
qed

text \<open>
  C4 (as amended): call a text an IPv6 value when \<^verbatim>\<open>net.ParseIP\<close> (for a host also
  \<^verbatim>\<open>net.ParseCIDR\<close>) accepts it and the address has no 4-byte form.  An IPv6 value as the
  host makes \<^verbatim>\<open>RouteDest\<close> return the empty text, and so does, with an empty host, an IPv6
  value as the network that is read (the network, or the ip when the network is empty).  An
  IPv6 value as the mask is ignored: with an empty host and a valid IPv4 network the result is
  the network with the prefix or the prefixlen when one is in 1 to 32 and the bare network
  otherwise, which is not empty.  A valid IPv4 host is returned whatever the other fields hold.
  The result is empty exactly when the host, or without a host the network that is read, is not
  a valid IPv4 destination.
\<close>

theorem RouteDest_ipv6:
  "(ParseIP (HostValue r) = Some ip \<and> To4 ip = None \<longrightarrow> RouteDest r = []) \<and>
   (ParseCIDR (HostValue r) = Some (ip, n) \<and> To4 ip = None \<longrightarrow> RouteDest r = []) \<and>
   (HostValue r = [] \<and> ParseIP (dest_network r) = Some ip \<and> To4 ip = None \<longrightarrow>
      RouteDest r = []) \<and>
   (HostValue r = [] \<and> ParseIP_To4 (dest_network r) \<noteq> None \<and>
    ParseIP (MaskValue r) = Some ip \<and> To4 ip = None \<longrightarrow>
      RouteDest r =
        (if 0 < PrefixValue r \<and> PrefixValue r \<le> 32
           then dest_network r @ ''/'' @ Itoa (PrefixValue r)
         else if 0 < PrefixLenValue r \<and> PrefixLenValue r \<le> 32
           then dest_network r @ ''/'' @ Itoa (PrefixLenValue r)
         else dest_network r) \<and>
      RouteDest r \<noteq> []) \<and>
   (HostValue r \<noteq> [] \<and> isIPv4OrCIDR (HostValue r) \<longrightarrow>
      RouteDest r = HostValue r \<and> RouteDest r \<noteq> []) \<and>
   ((RouteDest r = []) =
      (if HostValue r \<noteq> [] then \<not> isIPv4OrCIDR (HostValue r)
       else ParseIP_To4 (dest_network r) = None))"
proof -
  have host: "RouteDest r = []" if "ParseIP (HostValue r) = Some ip" "To4 ip = None"
  proof -
    from that(1) have "HostValue r \<noteq> []" using ParseIP_Nil(1) by auto
    moreover from that have "\<not> isIPv4OrCIDR (HostValue r)"
      using ParseIP_no_slash [OF that(1)] by (simp add: isIPv4OrCIDR_def)
    ultimately show ?thesis by (simp add: RouteDest_empty)
  qed
  have cidr: "RouteDest r = []" if "ParseCIDR (HostValue r) = Some (ip, n)" "To4 ip = None"
  proof -
    from that(1) have slash: "CHR ''/'' \<in> set (HostValue r)"
      by (auto simp: ParseCIDR_def split: if_splits)
    then have "HostValue r \<noteq> []" by auto
    moreover from that slash have "\<not> isIPv4OrCIDR (HostValue r)"
      by (simp add: isIPv4OrCIDR_def Contains_char)
    ultimately show ?thesis by (simp add: RouteDest_empty)
  qed
  have network: "RouteDest r = []"
    if "HostValue r = []" "ParseIP (dest_network r) = Some ip" "To4 ip = None"
    using that by (simp add: RouteDest_empty ParseIP_To4_def)
  have msk: "RouteDest r =
        (if 0 < PrefixValue r \<and> PrefixValue r \<le> 32
           then dest_network r @ ''/'' @ Itoa (PrefixValue r)
         else if 0 < PrefixLenValue r \<and> PrefixLenValue r \<le> 32
           then dest_network r @ ''/'' @ Itoa (PrefixLenValue r)
         else dest_network r) \<and>
      RouteDest r \<noteq> []"
    if h: "HostValue r = []" and n: "ParseIP_To4 (dest_network r) \<noteq> None"
      and m: "ParseIP (MaskValue r) = Some ip" "To4 ip = None"
  proof -
    from m have "ParseIP_To4 (MaskValue r) = None" by (simp add: ParseIP_To4_def)
    with RouteDest_network [OF h n] have "RouteDest r =
        (if 0 < PrefixValue r \<and> PrefixValue r \<le> 32
           then dest_network r @ ''/'' @ Itoa (PrefixValue r)
         else if 0 < PrefixLenValue r \<and> PrefixLenValue r \<le> 32
           then dest_network r @ ''/'' @ Itoa (PrefixLenValue r)
         else dest_network r)"
      by simp
    moreover from h n have "RouteDest r \<noteq> []" by (simp add: RouteDest_empty)
    ultimately show ?thesis by simp
  qed
  have valid: "RouteDest r = HostValue r \<and> RouteDest r \<noteq> []"
    if "HostValue r \<noteq> []" "isIPv4OrCIDR (HostValue r)"
    using that by (simp add: RouteDest_def)
  from host cidr network msk valid RouteDest_empty [of r] show ?thesis by blast
qed

text \<open>The witness: an IPv6 address and an IPv6 CIDR as the host, an IPv6 address as the ip, as
  the mask of an IPv4 network, and as the network beside an IPv4 host.\<close>

lemma ipv6_samples:
  "ParseIP ''fd00::2'' = Some [253, 0, 0, 0, 0, 0, 0, 0, 0, 0, 0, 0, 0, 0, 0, 2]"
  "To4 [253, 0, 0, 0, 0, 0, 0, 0, 0, 0, 0, 0, 0, 0, 0, 2] = None"
  "ParseIP ''ffff:ffff::'' = Some [255, 255, 255, 255, 0, 0, 0, 0, 0, 0, 0, 0, 0, 0, 0, 0]"
  "To4 [255, 255, 255, 255, 0, 0, 0, 0, 0, 0, 0, 0, 0, 0, 0, 0] = None"
  "ParseIP_To4 ''10.0.0.0'' = Some [10, 0, 0, 0]"
  by (simp_all add: go_eval)

lemma ipv6_cidr_sample:
  "ParseCIDR ''fd00::/8'' =
     Some ([253, 0, 0, 0, 0, 0, 0, 0, 0, 0, 0, 0, 0, 0, 0, 0],
           \<lparr>IP = [253, 0, 0, 0, 0, 0, 0, 0, 0, 0, 0, 0, 0, 0, 0, 0],
            Mask = [255, 0, 0, 0, 0, 0, 0, 0, 0, 0, 0, 0, 0, 0, 0, 0]\<rparr>)"
  "To4 [253, 0, 0, 0, 0, 0, 0, 0, 0, 0, 0, 0, 0, 0, 0, 0] = None"
  by (simp_all add: go_eval)

theorem RouteDest_ipv6_witness:
  "RouteDest \<lparr>HostValue = ''fd00::2'', NetworkValue = [], IPValue = [], MaskValue = [],
      PrefixValue = 0, PrefixLenValue = 0, CommentValue = [], GatewayValue = [],
      InterfaceValue = [], AutoValue = False, RejectValue = False\<rparr> = [] \<and>
   RouteDest \<lparr>HostValue = ''fd00::/8'', NetworkValue = [], IPValue = [], MaskValue = [],
      PrefixValue = 0, PrefixLenValue = 0, CommentValue = [], GatewayValue = [],
      InterfaceValue = [], AutoValue = False, RejectValue = False\<rparr> = [] \<and>
   RouteDest \<lparr>HostValue = [], NetworkValue = [], IPValue = ''fd00::2'', MaskValue = [],
      PrefixValue = 8, PrefixLenValue = 0, CommentValue = [], GatewayValue = [],
      InterfaceValue = [], AutoValue = False, RejectValue = False\<rparr> = [] \<and>
   RouteDest \<lparr>HostValue = [], NetworkValue = ''10.0.0.0'', IPValue = [],
      MaskValue = ''ffff:ffff::'',
      PrefixValue = 0, PrefixLenValue = 0, CommentValue = [], GatewayValue = [],
      InterfaceValue = [], AutoValue = False, RejectValue = False\<rparr> = ''10.0.0.0'' \<and>
   RouteDest \<lparr>HostValue = ''8.8.8.8'', NetworkValue = ''fd00::2'', IPValue = [],
      MaskValue = [],
      PrefixValue = 0, PrefixLenValue = 0, CommentValue = [], GatewayValue = [],
      InterfaceValue = [], AutoValue = False, RejectValue = False\<rparr> = ''8.8.8.8''"
proof -
  let ?ip = "[253, 0, 0, 0, 0, 0, 0, 0, 0, 0, 0, 0, 0, 0, 0, 2] :: nat list"
  let ?net = "[253, 0, 0, 0, 0, 0, 0, 0, 0, 0, 0, 0, 0, 0, 0, 0] :: nat list"
  let ?m = "[255, 255, 255, 255, 0, 0, 0, 0, 0, 0, 0, 0, 0, 0, 0, 0] :: nat list"
  let ?m8 = "[255, 0, 0, 0, 0, 0, 0, 0, 0, 0, 0, 0, 0, 0, 0, 0] :: nat list"
  let ?n = "\<lparr>IP = ?net, Mask = ?m8\<rparr>"
  let ?a = "\<lparr>HostValue = ''fd00::2'', NetworkValue = [], IPValue = [], MaskValue = [],
      PrefixValue = 0, PrefixLenValue = 0, CommentValue = [], GatewayValue = [],
      InterfaceValue = [], AutoValue = False, RejectValue = False\<rparr>"
  let ?b = "\<lparr>HostValue = ''fd00::/8'', NetworkValue = [], IPValue = [], MaskValue = [],
      PrefixValue = 0, PrefixLenValue = 0, CommentValue = [], GatewayValue = [],
      InterfaceValue = [], AutoValue = False, RejectValue = False\<rparr>"
  let ?c = "\<lparr>HostValue = [], NetworkValue = [], IPValue = ''fd00::2'', MaskValue = [],
      PrefixValue = 8, PrefixLenValue = 0, CommentValue = [], GatewayValue = [],
      InterfaceValue = [], AutoValue = False, RejectValue = False\<rparr>"
  let ?d = "\<lparr>HostValue = [], NetworkValue = ''10.0.0.0'', IPValue = [],
      MaskValue = ''ffff:ffff::'',
      PrefixValue = 0, PrefixLenValue = 0, CommentValue = [], GatewayValue = [],
      InterfaceValue = [], AutoValue = False, RejectValue = False\<rparr>"
  let ?e = "\<lparr>HostValue = ''8.8.8.8'', NetworkValue = ''fd00::2'', IPValue = [],
      MaskValue = [],
      PrefixValue = 0, PrefixLenValue = 0, CommentValue = [], GatewayValue = [],
      InterfaceValue = [], AutoValue = False, RejectValue = False\<rparr>"
  from RouteDest_ipv6 [of ?a ?ip ?n] have a: "RouteDest ?a = []"
    by (simp add: ipv6_samples)
  from RouteDest_ipv6 [of ?b ?net ?n] have b: "RouteDest ?b = []"
    by (simp add: ipv6_cidr_sample)
  from RouteDest_ipv6 [of ?c ?ip ?n] have c: "RouteDest ?c = []"
    by (simp add: ipv6_samples dest_network_def)
  from RouteDest_ipv6 [of ?d ?m ?n] have d: "RouteDest ?d = ''10.0.0.0''"
    by (simp add: ipv6_samples dest_network_def)
  from RouteDest_ipv6 [of ?e ?ip ?n] have e: "RouteDest ?e = ''8.8.8.8''"
    by (simp add: isIPv4OrCIDR_samples)
  from a b c d e show ?thesis by simp
qed

text \<open>
  Where C4 fails as stated: an IPv6 address as the mask of an IPv4 network gives the bare
  network, and an IPv6 address as the network beside a valid IPv4 host gives the host.
\<close>

theorem RouteDest_ipv6_counterexample:
  "ParseIP ''ffff:ffff::'' = Some [255, 255, 255, 255, 0, 0, 0, 0, 0, 0, 0, 0, 0, 0, 0, 0] \<and>
   To4 [255, 255, 255, 255, 0, 0, 0, 0, 0, 0, 0, 0, 0, 0, 0, 0] = None \<and>
   RouteDest \<lparr>HostValue = [], NetworkValue = ''10.0.0.0'', IPValue = [],
      MaskValue = ''ffff:ffff::'',
      PrefixValue = 0, PrefixLenValue = 0, CommentValue = [], GatewayValue = [],
      InterfaceValue = [], AutoValue = False, RejectValue = False\<rparr> = ''10.0.0.0'' \<and>
   ParseIP ''fd00::2'' = Some [253, 0, 0, 0, 0, 0, 0, 0, 0, 0, 0, 0, 0, 0, 0, 2] \<and>
   To4 [253, 0, 0, 0, 0, 0, 0, 0, 0, 0, 0, 0, 0, 0, 0, 2] = None \<and>
   RouteDest \<lparr>HostValue = ''8.8.8.8'', NetworkValue = ''fd00::2'', IPValue = [],
      MaskValue = [],
      PrefixValue = 0, PrefixLenValue = 0, CommentValue = [], GatewayValue = [],
      InterfaceValue = [], AutoValue = False, RejectValue = False\<rparr> = ''8.8.8.8''"
  by (simp add: ipv6_samples RouteDest_def dest_network_def isIPv4OrCIDR_samples)

end
